theory Spec2Isabelle
  imports Main
begin


section \<open>Path patterns: \<open>replaceBracket\<close> (queue-run/src/http/url.ts)\<close>

text \<open>
  \<^verbatim>\<open>path.replace(/(^|\/)\[(.+?)\](\/|\?|#|$)/g, (_, before, name, after) => ...)\<close>

  The regular expression is matched the way a backtracking engine does it: at each
  position the alternatives of a group are tried in the order written, and the lazy
  \<^verbatim>\<open>.+?\<close> takes the shortest name after which the rest of the pattern matches.
  A string is a list of characters with codes below 256: the pathname of a URL is made
  of such characters. \<^verbatim>\<open>.\<close> refuses the line terminators; of the four of
  JavaScript, line feed and carriage return are the two with a code below 256.
\<close>

definition is_line_terminator :: "char \<Rightarrow> bool" where
  "is_line_terminator c \<longleftrightarrow> c = CHR 0x0A \<or> c = CHR 0x0D"

text \<open>\<^verbatim>\<open>(\/|\?|#|$)\<close>: the text captured as \<open>after\<close> and the input left.\<close>

fun after_group :: "string \<Rightarrow> (string \<times> string) option" where
  "after_group [] = Some ([], [])"
| "after_group (c # cs) =
     (if c = CHR ''/'' \<or> c = CHR ''?'' \<or> c = CHR ''#'' then Some ([c], cs) else None)"

text \<open>\<^verbatim>\<open>\](\/|\?|#|$)\<close>\<close>

fun close_bracket :: "string \<Rightarrow> (string \<times> string) option" where
  "close_bracket [] = None"
| "close_bracket (c # cs) = (if c = CHR '']'' then after_group cs else None)"

text \<open>
  \<^verbatim>\<open>(.+?)\](\/|\?|#|$)\<close>: one more character is taken into the name only when the
  rest of the pattern does not match yet. The result is (name, after, input left).
\<close>

fun lazy_name :: "string \<Rightarrow> string \<Rightarrow> (string \<times> string \<times> string) option" where
  "lazy_name acc [] = None"
| "lazy_name acc (c # cs) =
     (if is_line_terminator c then None
      else (case close_bracket cs of
              Some (after, rest) \<Rightarrow> Some (acc @ [c], after, rest)
            | None \<Rightarrow> lazy_name (acc @ [c]) cs))"

text \<open>\<^verbatim>\<open>\[(.+?)\](\/|\?|#|$)\<close>\<close>

fun open_bracket :: "string \<Rightarrow> (string \<times> string \<times> string) option" where
  "open_bracket [] = None"
| "open_bracket (c # cs) = (if c = CHR ''['' then lazy_name [] cs else None)"

text \<open>
  One attempt of the whole pattern at the current position. \<open>at_start\<close> tells whether
  the position is index 0, the only place where \<^verbatim>\<open>^\<close> matches (no \<^verbatim>\<open>m\<close> flag).
  The result is (before, name, after, input left).
\<close>

definition match_at :: "bool \<Rightarrow> string \<Rightarrow> (string \<times> string \<times> string \<times> string) option" where
  "match_at at_start s =
     (case (if at_start then open_bracket s else None) of
        Some (name, after, rest) \<Rightarrow> Some ([], name, after, rest)
      | None \<Rightarrow>
          (case s of
             [] \<Rightarrow> None
           | c # cs \<Rightarrow>
               if c = CHR ''/''
               then (case open_bracket cs of
                       Some (name, after, rest) \<Rightarrow> Some ([c], name, after, rest)
                     | None \<Rightarrow> None)
               else None))"

text \<open>
  The replacement callback:
  \<^verbatim>\<open>`${before}:${name.startsWith("...") ? name.slice(3) + "*" : name}${after}`\<close>
\<close>

definition replacement :: "string \<Rightarrow> string \<Rightarrow> string \<Rightarrow> string" where
  "replacement pre name after =
     pre @ '':'' @ (if take 3 name = ''...'' then drop 3 name @ ''*'' else name) @ after"

lemma after_group_shorter: "after_group s = Some (a, r) \<Longrightarrow> length r \<le> length s"
  by (cases s) (auto split: if_splits)

lemma close_bracket_shorter: "close_bracket s = Some (a, r) \<Longrightarrow> length r < length s"
  by (cases s) (auto split: if_splits dest: after_group_shorter)

lemma lazy_name_shorter: "lazy_name acc s = Some (n, a, r) \<Longrightarrow> length r < length s"
proof (induction s arbitrary: acc)
  case Nil
  then show ?case by simp
next
  case (Cons c cs)
  show ?case
  proof (cases "close_bracket cs")
    case None
    with Cons.prems have "lazy_name (acc @ [c]) cs = Some (n, a, r)"
      by (simp split: if_splits)
    from Cons.IH [OF this] show ?thesis by simp
  next
    case (Some p)
    obtain a' r' where p: "p = (a', r')" by (cases p)
    with Some Cons.prems have "r = r'" by (simp split: if_splits)
    with Some p close_bracket_shorter [of cs a' r'] show ?thesis by simp
  qed
qed

lemma open_bracket_shorter: "open_bracket s = Some (n, a, r) \<Longrightarrow> length r < length s"
  by (cases s) (auto split: if_splits dest: lazy_name_shorter)

lemma match_at_shorter: "match_at b s = Some (bf, n, a, r) \<Longrightarrow> length r < length s"
  unfolding match_at_def
  by (auto split: if_splits option.splits list.splits dest!: open_bracket_shorter)

text \<open>
  The \<^verbatim>\<open>g\<close> flag: after a match the search goes on behind it (the text it consumed,
  \<open>after\<close> included, is not looked at again); where nothing matches, the character is
  copied and the search moves one position on.
\<close>

function replace_all :: "bool \<Rightarrow> string \<Rightarrow> string" where
  "replace_all at_start s =
     (case match_at at_start s of
        Some (pre, name, after, rest) \<Rightarrow> replacement pre name after @ replace_all False rest
      | None \<Rightarrow> (case s of [] \<Rightarrow> [] | c # cs \<Rightarrow> c # replace_all False cs))"
  by pat_completeness auto
termination
  by (relation "measure (\<lambda>(b, s). length s)") (auto dest: match_at_shorter)

definition replaceBracket :: "string \<Rightarrow> string" where
  "replaceBracket path = replace_all True path"


text \<open>
  What the specification asks of the compilation, segment by segment: the path is cut at
  every \<open>/\<close>, a segment \<open>[name]\<close> becomes \<open>:name\<close>, a segment \<open>[...name]\<close>
  becomes \<open>:name*\<close>, every other segment is kept.
\<close>

fun split_slash :: "string \<Rightarrow> string \<Rightarrow> string list" where
  "split_slash acc [] = [acc]"
| "split_slash acc (c # cs) =
     (if c = CHR ''/'' then acc # split_slash [] cs else split_slash (acc @ [c]) cs)"

fun join_slash :: "string list \<Rightarrow> string" where
  "join_slash [] = []"
| "join_slash [x] = x"
| "join_slash (x # y # ys) = x @ ''/'' @ join_slash (y # ys)"

definition spec_segment :: "string \<Rightarrow> string" where
  "spec_segment seg =
     (if 3 \<le> length seg \<and> hd seg = CHR ''['' \<and> last seg = CHR '']''
      then (let name = butlast (tl seg)
            in '':'' @ (if take 3 name = ''...'' then drop 3 name @ ''*'' else name))
      else seg)"

definition spec_replaceBracket :: "string \<Rightarrow> string" where
  "spec_replaceBracket path = join_slash (map spec_segment (split_slash [] path))"

section \<open>JavaScript values\<close>

text \<open>
  The values the handlers, hooks and modules of the runtime exchange. A fetch
  \<open>Response\<close> has a status, headers (names in lower case, as \<open>Headers\<close> yields them)
  and a body (its bytes, or none). Numbers are integers here.
\<close>

record response =
  status :: int
  headers :: "(string \<times> string) list"
  body :: "string option"

datatype js_value =
    Undefined
  | Null
  | BoolV bool
  | NumV int
  | BigIntV int
  | StrV string                        \<comment> \<open>a primitive string\<close>
  | StringObj string                   \<comment> \<open>\<^verbatim>\<open>new String(...)\<close>\<close>
  | BufferV string
  | ArrayBufferV string
  | FuncV nat
  | ErrorV string string               \<comment> \<open>an instance of \<open>Error\<close>: class name, message\<close>
  | ResponseV response
  | ArrV "js_value list"
  | ObjV "(string \<times> js_value) list"

fun typeof :: "js_value \<Rightarrow> string" where
  "typeof Undefined = ''undefined''"
| "typeof (BoolV b) = ''boolean''"
| "typeof (NumV n) = ''number''"
| "typeof (BigIntV n) = ''bigint''"
| "typeof (StrV s) = ''string''"
| "typeof (FuncV f) = ''function''"
| "typeof v = ''object''"

text \<open>Truthiness, as \<^verbatim>\<open>||\<close>, \<^verbatim>\<open>!\<close> and \<^verbatim>\<open>if\<close> test it.\<close>

fun truthy :: "js_value \<Rightarrow> bool" where
  "truthy Undefined = False"
| "truthy Null = False"
| "truthy (BoolV b) = b"
| "truthy (NumV n) = (n \<noteq> 0)"
| "truthy (BigIntV n) = (n \<noteq> 0)"
| "truthy (StrV s) = (s \<noteq> [])"
| "truthy v = True"

definition js_or :: "js_value \<Rightarrow> js_value \<Rightarrow> js_value" where
  "js_or a b = (if truthy a then a else b)"

text \<open>Reading a property of an object given by its property list: a missing one is \<open>undefined\<close>.\<close>

definition get_prop :: "(string \<times> js_value) list \<Rightarrow> string \<Rightarrow> js_value" where
  "get_prop ps k = (case map_of ps k of None \<Rightarrow> Undefined | Some v \<Rightarrow> v)"

fun is_Error :: "js_value \<Rightarrow> bool" where
  "is_Error (ErrorV n m) = True"
| "is_Error v = False"

text \<open>\<^verbatim>\<open>error instanceof Error ? error : new Error(String(error))\<close>\<close>

definition asError :: "(js_value \<Rightarrow> string) \<Rightarrow> js_value \<Rightarrow> js_value" where
  "asError toStr error = (if is_Error error then error else ErrorV ''Error'' (toStr error))"

text \<open>
  How an awaited call ends: it resolves with a value or rejects with a thrown value after
  so many milliseconds, or it never settles. A call that returns or throws without
  awaiting anything takes 0 ms.
\<close>

datatype 'a settle = Resolves nat 'a | Rejects nat js_value | Pending

text \<open>How a call of the runtime itself ends.\<close>

datatype 'a outcome = Returned 'a | Thrown js_value | Hangs

datatype log_entry = ConsoleError string "js_value list" | ConsoleDebug string "js_value list"

section \<open>Loading a function: \<open>loadAndVerify\<close> (builder/src/loadFunction.ts)\<close>

record function_exports =
  config :: js_value
  handler :: js_value

text \<open>
  \<open>loadModule\<close> is not part of these sources: what its one call did is an argument, the
  file names it left in \<open>cache\<close> and either the value it threw or the \<open>exports\<close>
  object of the module. The \<^verbatim>\<open>finally\<close> block replaces \<open>paths\<close> by the keys of the cache.
  (The line \<^verbatim>\<open>console.debug("Loaded %s in %sms", ...)\<close> is left out.)
\<close>

definition loadAndVerify ::
  "string list \<times> (js_value + (string \<times> js_value) list) \<Rightarrow> string \<Rightarrow> string set
     \<Rightarrow> (js_value + function_exports) \<times> string set" where
  "loadAndVerify loadModule filename paths =
     (let result =
        (case snd loadModule of
           Inl thrown \<Rightarrow> Inl thrown
         | Inr exports \<Rightarrow>
             (let h = js_or (get_prop exports ''handler'') (get_prop exports ''default'')
              in if typeof h \<noteq> ''function''
                 then Inl (ErrorV ''Error'' (''Expected '' @ filename @ '' to export a function (default)''))
                 else (let c = js_or (get_prop exports ''config'') (ObjV [])
                       in if typeof c \<noteq> ''object''
                          then Inl (ErrorV ''Error'' (''Expected '' @ filename @ '' to export an object (config)''))
                          else Inr \<lparr>config = c, handler = h\<rparr>)))
      in (result, set (fst loadModule)))"


section \<open>HTTP replies: \<open>asFetchRequest\<close> (unnamed/part_002)\<close>

text \<open>
  The fetch \<open>Response\<close> constructor, as far as \<open>asFetchRequest\<close> uses it: the status
  is the one given or 200; the headers are the ones given, names in lower case; a body
  given as a string adds its content type when none was given.
\<close>

datatype body_init = BodyString string | BodyBuffer string | BodyStream string | BodyNone

record response_init =
  init_status :: "int option"
  init_headers :: "(string \<times> string) list"

definition lower :: "char \<Rightarrow> char" where
  "lower c = (let n = (of_char c :: nat) in if 65 \<le> n \<and> n \<le> 90 then char_of (n + 32) else c)"

definition new_Headers :: "(string \<times> string) list \<Rightarrow> (string \<times> string) list" where
  "new_Headers init = map (\<lambda>(k, v). (map lower k, v)) init"

fun body_bytes :: "body_init \<Rightarrow> string option" where
  "body_bytes (BodyString s) = Some s"
| "body_bytes (BodyBuffer b) = Some b"
| "body_bytes (BodyStream b) = Some b"
| "body_bytes BodyNone = None"

definition new_Response :: "body_init \<Rightarrow> response_init \<Rightarrow> response" where
  "new_Response b init =
     (let hs = new_Headers (init_headers init)
      in \<lparr>status = (case init_status init of None \<Rightarrow> 200 | Some s \<Rightarrow> s),
          headers =
            (case b of
               BodyString s \<Rightarrow>
                 if map_of hs ''content-type'' = None
                 then hs @ [(''content-type'', ''text/plain;charset=UTF-8'')] else hs
             | _ \<Rightarrow> hs),
          body = body_bytes b\<rparr>)"

text \<open>\<^verbatim>\<open>Buffer.toString("base64")\<close>\<close>

definition sextet :: "nat \<Rightarrow> char" where
  "sextet n = ''ABCDEFGHIJKLMNOPQRSTUVWXYZabcdefghijklmnopqrstuvwxyz0123456789+/'' ! (n mod 64)"

fun base64_bytes :: "nat list \<Rightarrow> string" where
  "base64_bytes (a # b # c # rest) =
     [sextet (a div 4), sextet ((a mod 4) * 16 + b div 16),
      sextet ((b mod 16) * 4 + c div 64), sextet (c mod 64)] @ base64_bytes rest"
| "base64_bytes [a, b] =
     [sextet (a div 4), sextet ((a mod 4) * 16 + b div 16), sextet ((b mod 16) * 4), CHR ''='']"
| "base64_bytes [a] = [sextet (a div 4), sextet ((a mod 4) * 16), CHR ''='', CHR ''='']"
| "base64_bytes [] = []"

definition base64 :: "string \<Rightarrow> string" where
  "base64 s = base64_bytes (map of_char s)"

record proxy_response =
  wire_body :: string
  bodyEncoding :: string
  wire_headers :: "(string \<times> string) list"
  statusCode :: int

definition fromFetchResponse :: "response \<Rightarrow> proxy_response" where
  "fromFetchResponse r =
     \<lparr>wire_body = base64 (case body r of None \<Rightarrow> [] | Some b \<Rightarrow> b),
      bodyEncoding = ''base64'',
      wire_headers = headers r,
      statusCode = status r\<rparr>"

text \<open>
  \<^verbatim>\<open>JSON.stringify\<close> and \<^verbatim>\<open>String\<close> are the JavaScript runtime's and are arguments of
  the model. \<^verbatim>\<open>JSON.stringify\<close> gives a string, gives \<open>undefined\<close> (a function,
  \<open>undefined\<close>) or throws (a \<open>BigInt\<close>, a cyclic object).
\<close>

datatype stringify_result = Serialized string | NotSerialized | StringifyThrows js_value

definition null_or_undefined_message :: string where
  "null_or_undefined_message = ''HTTP request returned null or undefined. If this was intentional, use this instead: return new Response(null, { status: 204 })''"

text \<open>
  The \<^verbatim>\<open>try\<close> block after the handler has returned \<open>response\<close>, branch by branch
  in the order of the source. \<open>Thrown\<close> is an exception raised inside the block.
\<close>

fun normalizeReturned ::
  "(js_value \<Rightarrow> stringify_result) \<Rightarrow> js_value \<Rightarrow> proxy_response outcome \<times> log_entry list" where
  "normalizeReturned stringify (ResponseV r) = (Returned (fromFetchResponse r), [])"
| "normalizeReturned stringify (StrV s) =
     (Returned (fromFetchResponse (new_Response (BodyString s)
        \<lparr>init_status = None, init_headers = [(''Content-Type'', ''text/plain'')]\<rparr>)), [])"
| "normalizeReturned stringify (StringObj s) =
     (Returned (fromFetchResponse (new_Response (BodyString s)
        \<lparr>init_status = None, init_headers = [(''Content-Type'', ''text/plain'')]\<rparr>)), [])"
| "normalizeReturned stringify (BufferV b) =
     (Returned (fromFetchResponse (new_Response (BodyBuffer b)
        \<lparr>init_status = None, init_headers = [(''Content-Type'', ''text/plain'')]\<rparr>)), [])"
| "normalizeReturned stringify Null =
     (Returned (fromFetchResponse (new_Response BodyNone \<lparr>init_status = Some 204, init_headers = []\<rparr>)),
      [ConsoleError null_or_undefined_message []])"
| "normalizeReturned stringify Undefined =
     (Returned (fromFetchResponse (new_Response BodyNone \<lparr>init_status = Some 204, init_headers = []\<rparr>)),
      [ConsoleError null_or_undefined_message []])"
| "normalizeReturned stringify v =
     (case stringify v of
        Serialized s \<Rightarrow>
          (Returned (fromFetchResponse (new_Response (BodyString s)
             \<lparr>init_status = None, init_headers = [(''Content-Type'', ''application/json'')]\<rparr>)), [])
      | NotSerialized \<Rightarrow>
          (Returned (fromFetchResponse (new_Response BodyNone
             \<lparr>init_status = None, init_headers = [(''Content-Type'', ''application/json'')]\<rparr>)), [])
      | StringifyThrows e \<Rightarrow> (Thrown e, []))"

text \<open>
  The \<^verbatim>\<open>catch\<close> block. Spreading a \<open>Response\<close> into the options copies none of its
  headers (they are accessors of the prototype), so the reply keeps status and body.
\<close>

fun normalizeThrown :: "(js_value \<Rightarrow> string) \<Rightarrow> js_value \<Rightarrow> proxy_response \<times> log_entry list" where
  "normalizeThrown toStr (ResponseV r) =
     (fromFetchResponse (new_Response (case body r of None \<Rightarrow> BodyNone | Some b \<Rightarrow> BodyStream b)
        \<lparr>init_status = Some (status r), init_headers = []\<rparr>), [])"
| "normalizeThrown toStr error =
     (let message = (case error of ErrorV n m \<Rightarrow> m | _ \<Rightarrow> toStr error)
      in (fromFetchResponse (new_Response (BodyString message) \<lparr>init_status = Some 500, init_headers = []\<rparr>),
          [ConsoleError ''Callback error'' [error]]))"

text \<open>
  \<open>handled\<close> is how \<^verbatim>\<open>await handler(toFetchRequest(event))\<close> ended. The result is
  the reply and what was written to the console.
\<close>

definition asFetchRequest ::
  "(js_value \<Rightarrow> stringify_result) \<Rightarrow> (js_value \<Rightarrow> string) \<Rightarrow> js_value settle
     \<Rightarrow> proxy_response outcome \<times> log_entry list" where
  "asFetchRequest stringify toStr handled =
     (case handled of
        Pending \<Rightarrow> (Hangs, [])
      | Rejects d error \<Rightarrow> (case normalizeThrown toStr error of (reply, lg) \<Rightarrow> (Returned reply, lg))
      | Resolves d response \<Rightarrow>
          (case normalizeReturned stringify response of
             (Thrown error, lg) \<Rightarrow>
               (case normalizeThrown toStr error of (reply, lg') \<Rightarrow> (Returned reply, lg @ lg'))
           | (r, lg) \<Rightarrow> (r, lg)))"

text \<open>The values that reach the last branch of the \<^verbatim>\<open>try\<close> block.\<close>

fun other_value :: "js_value \<Rightarrow> bool" where
  "other_value (ResponseV r) = False"
| "other_value (StrV s) = False"
| "other_value (StringObj s) = False"
| "other_value (BufferV b) = False"
| "other_value Null = False"
| "other_value Undefined = False"
| "other_value v = True"


section \<open>Time, timers and the abort signal\<close>

text \<open>
  One invocation runs on a single event loop. Its state is the time in milliseconds
  since the entry point was called, the time at which the pending \<^verbatim>\<open>setTimeout\<close> is
  due (if one is pending), the \<open>aborted\<close> flag of the invocation's \<open>AbortController\<close>
  (\<open>None\<close> while none was created) and the hooks called and console lines written so
  far, each with its time.
\<close>

datatype event = Called string "js_value list" | Console log_entry

record run_state =
  now :: nat
  timer :: "nat option"
  signal :: "bool option"
  trace :: "(nat \<times> event) list"

definition initial_state :: run_state where
  "initial_state = \<lparr>now = 0, timer = None, signal = None, trace = []\<rparr>"

text \<open>
  \<^verbatim>\<open>setTimeout(() => controller.abort(), ms)\<close>. Node sets a delay below 1 or above
  2147483647 to 1.
\<close>

definition setTimeout :: "int \<Rightarrow> run_state \<Rightarrow> run_state" where
  "setTimeout ms st =
     st\<lparr>timer := Some (now st + (if ms < 1 \<or> 2147483647 < ms then 1 else nat ms))\<rparr>"

definition clearTimeout :: "run_state \<Rightarrow> run_state" where
  "clearTimeout st = st\<lparr>timer := None\<rparr>"

definition new_AbortController :: "run_state \<Rightarrow> run_state" where
  "new_AbortController st = st\<lparr>signal := Some False\<rparr>"

definition abort :: "run_state \<Rightarrow> run_state" where
  "abort st = st\<lparr>signal := Some True\<rparr>"

text \<open>
  Time passes only while a call is awaited. A timer that is due when the awaited call
  settles has run its callback before, also when both fall on the same millisecond
  (the timer was set first).
\<close>

definition advance :: "nat \<Rightarrow> run_state \<Rightarrow> run_state" where
  "advance d st =
     (let t = now st + d
      in case timer st of
           None \<Rightarrow> st\<lparr>now := t\<rparr>
         | Some due \<Rightarrow> if due \<le> t then (abort (clearTimeout st))\<lparr>now := t\<rparr> else st\<lparr>now := t\<rparr>)"

text \<open>Waiting for a call that never settles: a pending timer fires, and nothing else happens.\<close>

definition forever :: "run_state \<Rightarrow> run_state" where
  "forever st =
     (case timer st of
        None \<Rightarrow> st
      | Some due \<Rightarrow> (abort (clearTimeout st))\<lparr>now := max (now st) due\<rparr>)"

fun await :: "'a settle \<Rightarrow> run_state \<Rightarrow> 'a outcome \<times> run_state" where
  "await (Resolves d v) st = (Returned v, advance d st)"
| "await (Rejects d e) st = (Thrown e, advance d st)"
| "await Pending st = (Hangs, forever st)"

definition console :: "log_entry \<Rightarrow> run_state \<Rightarrow> run_state" where
  "console entry st = st\<lparr>trace := trace st @ [(now st, Console entry)]\<rparr>"

text \<open>Calling a hook or a handler and awaiting what it returns.\<close>

definition call :: "string \<Rightarrow> js_value list \<Rightarrow> 'a settle \<Rightarrow> run_state \<Rightarrow> 'a outcome \<times> run_state" where
  "call name args s st = await s (st\<lparr>trace := trace st @ [(now st, Called name args)]\<rparr>)"

text \<open>\<^verbatim>\<open>if (middleware.hook) await middleware.hook(...)\<close>\<close>

definition call_hook :: "string \<Rightarrow> unit settle option \<Rightarrow> run_state \<Rightarrow> unit outcome \<times> run_state" where
  "call_hook name hook st = (case hook of None \<Rightarrow> (Returned (), st) | Some s \<Rightarrow> call name [] s st)"

text \<open>
  \<^verbatim>\<open>Promise.race([p, new Promise((resolve) => signal.addEventListener("abort", resolve))])\<close>

  Only the timer can abort the signal while \<open>p\<close> runs (\<open>p\<close> holds the signal, not the
  controller). When it does, the race is settled at that moment with \<open>on_abort\<close>:
  \<open>p\<close> goes on unobserved, and what it calls or logs from then on is not part of the
  trace of the invocation.
\<close>

definition raceAbort ::
  "'a \<Rightarrow> (run_state \<Rightarrow> 'a outcome \<times> run_state) \<Rightarrow> run_state \<Rightarrow> 'a outcome \<times> run_state" where
  "raceAbort on_abort p st =
     (case p st of
        (r, st') \<Rightarrow>
          if signal st' = Some True \<and> signal st \<noteq> Some True
          then (let due = (case timer st of None \<Rightarrow> now st' | Some t \<Rightarrow> t)
                in (Returned on_abort, st'\<lparr>now := due, trace := filter (\<lambda>(t, e). t < due) (trace st')\<rparr>))
          else (r, st'))"

text \<open>A number in a template string (an integer below \<open>10^21\<close> in absolute value).\<close>

fun decimal_nat :: "nat \<Rightarrow> string" where
  "decimal_nat n =
     (if n < 10 then [''0123456789'' ! n]
      else decimal_nat (n div 10) @ [''0123456789'' ! (n mod 10)])"

declare decimal_nat.simps [simp del]

definition decimal :: "int \<Rightarrow> string" where
  "decimal i = (if i < 0 then CHR ''-'' # decimal_nat (nat (- i)) else decimal_nat (nat i))"

section \<open>Queued jobs: \<open>handleQueuedJob\<close> (queue-run/src/queue/handler.ts)\<close>

text \<open>
  The middleware of a queue: for each hook, whether it is defined and how its call ends.
  \<open>onError\<close> depends on the error it is given.
\<close>

record queue_middleware =
  onJobStarted :: "unit settle option"
  onJobFinished :: "unit settle option"
  onError :: "(js_value \<Rightarrow> unit settle) option"

text \<open>
  \<open>runWithMiddleware\<close> of the queue handler; \<open>module_default\<close> is how
  \<^verbatim>\<open>module.default(payload, metadata)\<close> ends. (The execution context set up by
  \<^verbatim>\<open>withLocalStorage\<close> does not bear on the result and is left out.)
\<close>

definition runWithMiddleware_queue ::
  "queue_middleware \<Rightarrow> unit settle \<Rightarrow> run_state \<Rightarrow> unit outcome \<times> run_state" where
  "runWithMiddleware_queue middleware module_default st =
     (case call_hook ''onJobStarted'' (onJobStarted middleware) st of
        (Thrown error, st1) \<Rightarrow> (Thrown error, st1)
      | (Hangs, st1) \<Rightarrow> (Hangs, st1)
      | (Returned u, st1) \<Rightarrow>
          if signal st1 = Some True then (Returned (), st1)
          else
            (case call ''default'' [] module_default st1 of
               (Thrown error, st2) \<Rightarrow> (Thrown error, st2)
             | (Hangs, st2) \<Rightarrow> (Hangs, st2)
             | (Returned u, st2) \<Rightarrow>
                 if signal st2 = Some True then (Returned (), st2)
                 else call_hook ''onJobFinished'' (onJobFinished middleware) st2))"

definition timeout_error :: "int \<Rightarrow> js_value" where
  "timeout_error timeout =
     ErrorV ''Error'' (''Timeout: job took longer than '' @ decimal timeout @ ''s to process'')"

text \<open>
  The \<^verbatim>\<open>catch\<close> block of \<open>handleQueuedJob\<close>. (The quotation marks inside the console
  messages are left out.)
\<close>

definition handleQueuedJob_catch ::
  "(js_value \<Rightarrow> string) \<Rightarrow> queue_middleware \<Rightarrow> string \<Rightarrow> js_value \<Rightarrow> js_value \<Rightarrow> run_state
     \<Rightarrow> bool outcome \<times> run_state" where
  "handleQueuedJob_catch toStr middleware queueName jobID error st =
     (let st1 = console (ConsoleError ''Error in queue %s job %s:'' [StrV queueName, jobID, error]) st
      in case onError middleware of
           None \<Rightarrow> (Returned False, st1)
         | Some f \<Rightarrow>
             (case call ''onError'' [asError toStr error] (f (asError toStr error)) st1 of
                (Returned u, st2) \<Rightarrow> (Returned False, st2)
              | (Thrown error2, st2) \<Rightarrow>
                  (Returned False,
                   console (ConsoleError ''Error in onError handler for queue %s'' [StrV queueName, error2]) st2)
              | (Hangs, st2) \<Rightarrow> (Hangs, st2)))"

text \<open>
  \<open>queues\<close> is the manifest (the declared timeout of each queue, in seconds), \<open>loaded\<close>
  what \<open>loadModule\<close> gave: the handler and the middleware of the queue, or nothing.
  \<open>Hangs\<close>: the call never returns, so its \<^verbatim>\<open>finally\<close> block is never reached.
\<close>

definition handleQueuedJob ::
  "(js_value \<Rightarrow> string) \<Rightarrow> (string \<Rightarrow> int option) \<Rightarrow> (unit settle \<times> queue_middleware) option
     \<Rightarrow> string \<Rightarrow> js_value \<Rightarrow> int \<Rightarrow> run_state \<Rightarrow> bool outcome \<times> run_state" where
  "handleQueuedJob toStr queues loaded queueName jobID remainingTime st =
     (case queues queueName of
        None \<Rightarrow> (Thrown (ErrorV ''Error'' (''No handler for queue '' @ queueName)), st)
      | Some queue_timeout \<Rightarrow>
          (case loaded of
             None \<Rightarrow> (Thrown (ErrorV ''Error'' ''Invariant failed: Could not load queue module''), st)
           | Some (module_default, middleware) \<Rightarrow>
               (let timeout = min (queue_timeout * 1000) remainingTime
                in if timeout \<le> 0 then (Returned False, st)
                   else
                     (let st1 = setTimeout (timeout * 1000) (new_AbortController st);
                          tried =
                            (case raceAbort () (runWithMiddleware_queue middleware module_default) st1 of
                               (Returned u, st2) \<Rightarrow>
                                 if signal st2 = Some True
                                 then handleQueuedJob_catch toStr middleware queueName jobID
                                        (timeout_error timeout) st2
                                 else (Returned True, st2)
                             | (Thrown error, st2) \<Rightarrow>
                                 handleQueuedJob_catch toStr middleware queueName jobID error st2
                             | (Hangs, st2) \<Rightarrow> (Hangs, st2))
                      in case tried of
                           (Hangs, st3) \<Rightarrow> (Hangs, st3)
                         | (r, st3) \<Rightarrow> (r, abort (clearTimeout st3))))))"

section \<open>WebSocket: \<open>authenticateWebSocket\<close> and \<open>handleRoute\<close> (unnamed/part_004)\<close>

text \<open>
  The middleware of the socket: \<open>authenticate\<close> tells how
  \<^verbatim>\<open>authenticate(request, cookies)\<close> ends, given the name and value pairs that
  \<open>getCookies\<close> folds into the \<open>cookies\<close> object. \<open>onError_ws\<close> is the \<open>onError\<close> hook
  of the socket. As for the queue, the execution context that \<^verbatim>\<open>withLocalStorage\<close>
  sets up is left out, and so are the quotation marks inside console messages.
\<close>

record websocket_middleware =
  authenticate :: "((string \<times> string) list \<Rightarrow> js_value settle) option"
  onError_ws :: "(js_value \<Rightarrow> unit settle) option"
  onMessageReceived :: "unit settle option"
  onMessageSent :: "unit settle option"

text \<open>
  \<open>getCookies\<close>. \<^verbatim>\<open>header.split(";")\<close>, then \<^verbatim>\<open>trim\<close> (the white space and line
  terminators with a code below 256), then \<^verbatim>\<open>cookie.match(/^([^=]+?)=(.*)$/)?.slice(1)\<close>:
  the name is the text before the first \<open>=\<close> and must not be empty, the value is the
  rest and holds no line terminator. Where a cookie does not match, the entry is
  \<open>undefined\<close>, and the destructuring \<^verbatim>\<open>([name]) => name\<close> of the filter throws a
  \<open>TypeError\<close>. \<open>header\<close> is \<^verbatim>\<open>request.headers.get("cookie")\<close>, \<open>None\<close> for \<open>null\<close>.
\<close>

definition is_white_space :: "char \<Rightarrow> bool" where
  "is_white_space c \<longleftrightarrow>
     c = CHR 0x09 \<or> c = CHR 0x0A \<or> c = CHR 0x0B \<or> c = CHR 0x0C \<or> c = CHR 0x0D \<or>
     c = CHR 0x20 \<or> c = CHR 0xA0"

definition trim :: "string \<Rightarrow> string" where
  "trim s = rev (dropWhile is_white_space (rev (dropWhile is_white_space s)))"

fun split_semicolon :: "string \<Rightarrow> string \<Rightarrow> string list" where
  "split_semicolon acc [] = [acc]"
| "split_semicolon acc (c # cs) =
     (if c = CHR '';'' then acc # split_semicolon [] cs else split_semicolon (acc @ [c]) cs)"

definition match_cookie :: "string \<Rightarrow> (string \<times> string) option" where
  "match_cookie cookie =
     (let name = takeWhile (\<lambda>c. c \<noteq> CHR ''='') cookie;
          rest = dropWhile (\<lambda>c. c \<noteq> CHR ''='') cookie
      in if name = [] \<or> rest = [] \<or> list_ex is_line_terminator (tl rest) then None
         else Some (name, tl rest))"

fun matched_cookies :: "(string \<times> string) option list \<Rightarrow> (string \<times> string) list option" where
  "matched_cookies [] = Some []"
| "matched_cookies (None # ms) = None"
| "matched_cookies (Some m # ms) =
     (case matched_cookies ms of None \<Rightarrow> None | Some rest \<Rightarrow> Some (m # rest))"

definition getCookies :: "string option \<Rightarrow> js_value + (string \<times> string) list" where
  "getCookies header =
     (case header of
        None \<Rightarrow> Inr []
      | Some h \<Rightarrow>
          if h = [] then Inr []
          else (case matched_cookies (map (\<lambda>cookie. match_cookie (trim cookie)) (split_semicolon [] h)) of
                  None \<Rightarrow>
                    Inl (ErrorV ''TypeError''
                           ''undefined is not iterable (cannot read property Symbol(Symbol.iterator))'')
                | Some cookies \<Rightarrow> Inr cookies))"

text \<open>\<^verbatim>\<open>user?.id\<close>\<close>

fun optional_id :: "js_value \<Rightarrow> js_value" where
  "optional_id (ObjV ps) = get_prop ps ''id''"
| "optional_id v = Undefined"

definition internal_server_error :: js_value where
  "internal_server_error =
     ResponseV (new_Response (BodyString ''Internal Server Error'') \<lparr>init_status = Some 500, init_headers = []\<rparr>)"

definition forbidden :: js_value where
  "forbidden = ResponseV (new_Response (BodyString ''Forbidden'') \<lparr>init_status = Some 403, init_headers = []\<rparr>)"

definition concern :: "js_value \<Rightarrow> string" where
  "concern user =
     (if user = Undefined
      then ''Authenticate function returned undefined, was this intentional?''
      else ''Authenticate function returned user object without an ID'')"

text \<open>
  The \<^verbatim>\<open>catch\<close> block around \<^verbatim>\<open>user = await authenticate(request, getCookies(request))\<close>.
\<close>

definition authenticate_catch ::
  "(js_value \<Rightarrow> string) \<Rightarrow> websocket_middleware \<Rightarrow> js_value \<Rightarrow> run_state
     \<Rightarrow> js_value outcome \<times> run_state" where
  "authenticate_catch toStr middleware error st =
     (case onError_ws middleware of
        None \<Rightarrow> (Thrown internal_server_error, st)
      | Some f \<Rightarrow>
          (case call ''onError'' [asError toStr error] (f (asError toStr error)) st of
             (Hangs, st1) \<Rightarrow> (Hangs, st1)
           | (Thrown error2, st1) \<Rightarrow>
               (Thrown internal_server_error, console (ConsoleError [] [error2]) st1)
           | (Returned u, st1) \<Rightarrow> (Thrown internal_server_error, st1)))"

text \<open>
  \<open>authenticateWebSocket\<close>. The arguments of \<open>authenticate\<close> are evaluated inside the
  \<^verbatim>\<open>try\<close> block: when \<open>getCookies\<close> throws, \<open>authenticate\<close> is not called and the
  \<^verbatim>\<open>catch\<close> block runs.
\<close>

definition authenticateWebSocket ::
  "(js_value \<Rightarrow> string) \<Rightarrow> websocket_middleware \<Rightarrow> string option \<Rightarrow> run_state
     \<Rightarrow> js_value outcome \<times> run_state" where
  "authenticateWebSocket toStr middleware header st =
     (case authenticate middleware of
        None \<Rightarrow> (Returned Null, st)
      | Some authenticating \<Rightarrow>
          (case getCookies header of
             Inl error \<Rightarrow> authenticate_catch toStr middleware error st
           | Inr cookies \<Rightarrow>
               (case call ''authenticate'' [] (authenticating cookies) st of
                  (Hangs, st1) \<Rightarrow> (Hangs, st1)
                | (Thrown error, st1) \<Rightarrow> authenticate_catch toStr middleware error st1
                | (Returned user, st1) \<Rightarrow>
                    if user = Null \<or> truthy (optional_id user) then (Returned user, st1)
                    else (Thrown forbidden, console (ConsoleError (concern user) []) st1))))"

text \<open>
  \<open>bufferToData\<close>: \<open>config_type\<close> is \<^verbatim>\<open>config.type\<close> when the module sets it;
  \<open>parse\<close> is \<^verbatim>\<open>JSON.parse\<close>, which returns a value or throws.
\<close>

definition bufferToData ::
  "(string \<Rightarrow> js_value + js_value) \<Rightarrow> string option \<Rightarrow> string \<Rightarrow> js_value + js_value" where
  "bufferToData parse config_type data =
     (let type = (case config_type of None \<Rightarrow> ''json'' | Some t \<Rightarrow> t)
      in if type = ''json'' then parse data
         else if type = ''text'' then Inr (StrV data)
         else Inr (BufferV data))"

text \<open>
  \<open>resultToBuffer\<close>: the bytes of the buffer, or the value thrown. \<open>stringify\<close> is
  \<^verbatim>\<open>JSON.stringify(result, null, indent)\<close>; \<^verbatim>\<open>Buffer.from(undefined)\<close> throws.
\<close>

definition resultToBuffer :: "(js_value \<Rightarrow> stringify_result) \<Rightarrow> js_value \<Rightarrow> js_value + string" where
  "resultToBuffer stringify result =
     (case result of
        StrV s \<Rightarrow> Inr s
      | BufferV b \<Rightarrow> Inr b
      | ArrayBufferV b \<Rightarrow> Inr b
      | _ \<Rightarrow>
          (case stringify result of
             Serialized s \<Rightarrow> Inr s
           | NotSerialized \<Rightarrow>
               Inl (ErrorV ''TypeError'' ''The first argument must be of type string or an instance of Buffer, ArrayBuffer, or Array or an Array-like Object. Received undefined'')
           | StringifyThrows e \<Rightarrow> Inl e))"

definition handleResponse ::
  "(js_value \<Rightarrow> stringify_result) \<Rightarrow> websocket_middleware \<Rightarrow> js_value \<Rightarrow> run_state
     \<Rightarrow> string option outcome \<times> run_state" where
  "handleResponse stringify middleware response st =
     (case resultToBuffer stringify response of
        Inl error \<Rightarrow> (Thrown error, st)
      | Inr data \<Rightarrow>
          (case onMessageSent middleware of
             None \<Rightarrow> (Returned (Some data), st)
           | Some sending \<Rightarrow>
               (case call ''onMessageSent'' [BufferV data] sending st of
                  (Returned u, st1) \<Rightarrow> (Returned (Some data), st1)
                | (Thrown error, st1) \<Rightarrow>
                    (Returned (Some data),
                     console (ConsoleError ''Internal processing error in onMessageSent'' [error]) st1)
                | (Hangs, st1) \<Rightarrow> (Hangs, st1))))"

definition handleOnError ::
  "(js_value \<Rightarrow> string) \<Rightarrow> string \<Rightarrow> websocket_middleware \<Rightarrow> js_value \<Rightarrow> run_state
     \<Rightarrow> unit outcome \<times> run_state" where
  "handleOnError toStr filename middleware error st =
     (case onError_ws middleware of
        None \<Rightarrow> (Returned (), st)
      | Some f \<Rightarrow>
          (case call ''onError'' [asError toStr error] (f (asError toStr error)) st of
             (Returned u, st1) \<Rightarrow> (Returned (), st1)
           | (Thrown error2, st1) \<Rightarrow>
               (Returned (), console (ConsoleError ''Error in onError middleware in %s:'' [StrV filename, error2]) st1)
           | (Hangs, st1) \<Rightarrow> (Hangs, st1)))"

text \<open>The \<^verbatim>\<open>catch\<close> block of the socket's \<open>runWithMiddleware\<close>.\<close>

definition runWithMiddleware_catch ::
  "(js_value \<Rightarrow> stringify_result) \<Rightarrow> (js_value \<Rightarrow> string) \<Rightarrow> string \<Rightarrow> websocket_middleware
     \<Rightarrow> js_value \<Rightarrow> run_state \<Rightarrow> string option outcome \<times> run_state" where
  "runWithMiddleware_catch stringify toStr filename middleware error st =
     (case handleOnError toStr filename middleware error st of
        (Hangs, st1) \<Rightarrow> (Hangs, st1)
      | (Thrown e, st1) \<Rightarrow> (Thrown e, st1)
      | (Returned u, st1) \<Rightarrow>
          handleResponse stringify middleware (ObjV [(''error'', StrV (toStr error))]) st1)"

text \<open>
  \<open>runWithMiddleware\<close> of the socket; \<open>route_handler\<close> tells how the route's handler ends on
  the request data. \<open>bufferToData\<close> runs before the \<^verbatim>\<open>try\<close> block.
\<close>

definition runWithMiddleware_ws ::
  "(string \<Rightarrow> js_value + js_value) \<Rightarrow> (js_value \<Rightarrow> stringify_result) \<Rightarrow> (js_value \<Rightarrow> string)
     \<Rightarrow> string option \<Rightarrow> string \<Rightarrow> string \<Rightarrow> (js_value \<Rightarrow> js_value settle) \<Rightarrow> websocket_middleware
     \<Rightarrow> run_state \<Rightarrow> string option outcome \<times> run_state" where
  "runWithMiddleware_ws parse stringify toStr config_type data filename route_handler middleware st =
     (case bufferToData parse config_type data of
        Inl error \<Rightarrow> (Thrown error, st)
      | Inr request_data \<Rightarrow>
          (case raceAbort Undefined
                  (\<lambda>s. case call_hook ''onMessageReceived'' (onMessageReceived middleware) s of
                          (Returned u, s1) \<Rightarrow> call ''handler'' [request_data] (route_handler request_data) s1
                        | (Thrown error, s1) \<Rightarrow> (Thrown error, s1)
                        | (Hangs, s1) \<Rightarrow> (Hangs, s1))
                  st of
             (Returned response, st1) \<Rightarrow>
               if signal st1 = Some True
               then runWithMiddleware_catch stringify toStr filename middleware
                      (ErrorV ''TimeoutError'' ''Request aborted: timed out'') st1
               else if \<not> truthy response then (Returned None, st1)
               else
                 (case handleResponse stringify middleware response st1 of
                    (Thrown error, st2) \<Rightarrow>
                      runWithMiddleware_catch stringify toStr filename middleware error st2
                  | (Returned reply, st2) \<Rightarrow> (Returned reply, st2)
                  | (Hangs, st2) \<Rightarrow> (Hangs, st2))
           | (Thrown error, st1) \<Rightarrow> runWithMiddleware_catch stringify toStr filename middleware error st1
           | (Hangs, st1) \<Rightarrow> (Hangs, st1)))"

text \<open>
  \<open>handleRoute\<close>: \<open>timeout\<close> is the route's, in seconds. The result is the buffer sent
  back (\<open>None\<close> for \<open>null\<close>).
\<close>

definition handleRoute ::
  "(string \<Rightarrow> js_value + js_value) \<Rightarrow> (js_value \<Rightarrow> stringify_result) \<Rightarrow> (js_value \<Rightarrow> string)
     \<Rightarrow> string option \<Rightarrow> string \<Rightarrow> string \<Rightarrow> (js_value \<Rightarrow> js_value settle) \<Rightarrow> websocket_middleware
     \<Rightarrow> int \<Rightarrow> run_state \<Rightarrow> string option outcome \<times> run_state" where
  "handleRoute parse stringify toStr config_type data filename route_handler middleware timeout st =
     (let st1 = setTimeout (timeout * 1000) (new_AbortController st)
      in case runWithMiddleware_ws parse stringify toStr config_type data filename route_handler middleware st1 of
           (Hangs, st2) \<Rightarrow> (Hangs, st2)
         | (r, st2) \<Rightarrow> (r, abort (clearTimeout st2)))"

section \<open>How a job ends\<close>

text \<open>
  The notions the properties of \<open>handleQueuedJob\<close> are stated with. \<open>job_settle\<close> is
  how the three awaited steps of a job (\<open>onJobStarted\<close>, the handler, \<open>onJobFinished\<close>)
  end one after the other when nothing interrupts them; \<open>job_end\<close> compares that with
  the delay of the timer.
\<close>

fun then_settle :: "unit settle \<Rightarrow> unit settle \<Rightarrow> unit settle" where
  "then_settle (Resolves d u) (Resolves d' u') = Resolves (d + d') u'"
| "then_settle (Resolves d u) (Rejects d' e) = Rejects (d + d') e"
| "then_settle (Resolves d u) Pending = Pending"
| "then_settle (Rejects d e) s = Rejects d e"
| "then_settle Pending s = Pending"

definition hook_settle :: "unit settle option \<Rightarrow> unit settle" where
  "hook_settle hook = (case hook of None \<Rightarrow> Resolves 0 () | Some s \<Rightarrow> s)"

definition job_settle :: "queue_middleware \<Rightarrow> unit settle \<Rightarrow> unit settle" where
  "job_settle middleware module_default =
     then_settle (hook_settle (onJobStarted middleware))
       (then_settle module_default (hook_settle (onJobFinished middleware)))"

datatype job_end = Completed | Failed js_value | TimedOut

definition job_end :: "nat \<Rightarrow> unit settle \<Rightarrow> job_end" where
  "job_end delay s =
     (case s of
        Resolves d u \<Rightarrow> if d < delay then Completed else TimedOut
      | Rejects d e \<Rightarrow> if d < delay then Failed e else TimedOut
      | Pending \<Rightarrow> TimedOut)"

definition timer_delay :: "int \<Rightarrow> nat" where
  "timer_delay ms = (if ms < 1 \<or> 2147483647 < ms then 1 else nat ms)"

text \<open>What the \<^verbatim>\<open>catch\<close> block of \<open>handleQueuedJob\<close> comes to, given the error.\<close>

definition after_onError :: "queue_middleware \<Rightarrow> js_value \<Rightarrow> bool outcome" where
  "after_onError middleware error =
     (case onError middleware of
        None \<Rightarrow> Returned False
      | Some f \<Rightarrow> if f error = Pending then Hangs else Returned False)"

section \<open>What the socket replies\<close>

text \<open>
  The notions the properties of \<open>handleRoute\<close> are stated with: what \<open>handleResponse\<close>
  comes to for a response, and what the \<^verbatim>\<open>catch\<close> block of \<open>runWithMiddleware\<close> comes
  to for an error.
\<close>

definition sent_outcome :: "websocket_middleware \<Rightarrow> string \<Rightarrow> string option outcome" where
  "sent_outcome middleware data =
     (case onMessageSent middleware of
        None \<Rightarrow> Returned (Some data)
      | Some sending \<Rightarrow> if sending = Pending then Hangs else Returned (Some data))"

definition response_outcome ::
  "(js_value \<Rightarrow> stringify_result) \<Rightarrow> websocket_middleware \<Rightarrow> js_value \<Rightarrow> string option outcome" where
  "response_outcome stringify middleware response =
     (case resultToBuffer stringify response of
        Inl error \<Rightarrow> Thrown error
      | Inr data \<Rightarrow> sent_outcome middleware data)"

definition error_outcome ::
  "(js_value \<Rightarrow> stringify_result) \<Rightarrow> (js_value \<Rightarrow> string) \<Rightarrow> websocket_middleware \<Rightarrow> js_value
     \<Rightarrow> string option outcome" where
  "error_outcome stringify toStr middleware error =
     (let reply = response_outcome stringify middleware (ObjV [(''error'', StrV (toStr error))])
      in case onError_ws middleware of
           None \<Rightarrow> reply
         | Some f \<Rightarrow> if f (asError toStr error) = Pending then Hangs else reply)"

section \<open>Values for the examples\<close>

text \<open>
  \<^verbatim>\<open>String\<close> and \<^verbatim>\<open>JSON.stringify\<close> on the few values the examples below pass
  to them; no example depends on what they answer elsewhere. \<^verbatim>\<open>JSON.stringify\<close> throws
  on a \<open>BigInt\<close> and gives \<open>undefined\<close> for a function.
\<close>

definition example_String :: "js_value \<Rightarrow> string" where
  "example_String v =
     (case v of
        StrV s \<Rightarrow> s
      | Undefined \<Rightarrow> ''undefined''
      | Null \<Rightarrow> ''null''
      | BoolV b \<Rightarrow> (if b then ''true'' else ''false'')
      | ErrorV n m \<Rightarrow> (if m = [] then n else if n = [] then m else n @ '': '' @ m)
      | _ \<Rightarrow> ''[object Object]'')"

text \<open>The JSON text of \<^verbatim>\<open>{ error: "Error: rejected" }\<close> (\<open>CHR 0x22\<close> is the quotation mark).\<close>

definition rejected_json :: string where
  "rejected_json =
     ''{'' @ [CHR 0x22] @ ''error'' @ [CHR 0x22] @ '':'' @ [CHR 0x22] @ ''Error: rejected'' @ [CHR 0x22] @ ''}''"

definition example_stringify :: "js_value \<Rightarrow> stringify_result" where
  "example_stringify v =
     (if v = ArrV [BoolV True, Null] then Serialized ''[true,null]''
      else if v = BoolV True then Serialized ''true''
      else if v = ObjV [] then Serialized ''{}''
      else if v = ObjV [(''error'', StrV ''Error: rejected'')] then Serialized rejected_json
      else if v = BigIntV 10
      then StringifyThrows (ErrorV ''TypeError'' ''Do not know how to serialize a BigInt'')
      else NotSerialized)"

text \<open>\<^verbatim>\<open>JSON.parse\<close> on the one text the examples send.\<close>

definition example_parse :: "string \<Rightarrow> js_value + js_value" where
  "example_parse s =
     (if s = ''true'' then Inr (BoolV True)
      else Inl (ErrorV ''SyntaxError'' ''Unexpected token''))"

definition no_queue_middleware :: queue_middleware where
  "no_queue_middleware = \<lparr>onJobStarted = None, onJobFinished = None, onError = None\<rparr>"

definition no_websocket_middleware :: websocket_middleware where
  "no_websocket_middleware =
     \<lparr>authenticate = None, onError_ws = None, onMessageReceived = None, onMessageSent = None\<rparr>"

definition echo_after_5ms :: "js_value \<Rightarrow> js_value settle" where
  "echo_after_5ms request_data = Resolves 5 request_data"

definition rejected :: js_value where
  "rejected = ErrorV ''Error'' ''rejected''"

text \<open>Some \<open>authenticate\<close> hooks: what they do does not depend on the cookies.\<close>

definition returns_undefined :: "(string \<times> string) list \<Rightarrow> js_value settle" where
  "returns_undefined cookies = Resolves 0 Undefined"

definition returns_user :: "(string \<times> string) list \<Rightarrow> js_value settle" where
  "returns_user cookies = Resolves 2 (ObjV [(''id'', StrV ''user-1'')])"

definition returns_nobody :: "(string \<times> string) list \<Rightarrow> js_value settle" where
  "returns_nobody cookies = Resolves 2 (ObjV [(''name'', StrV ''nobody'')])"

definition throws_401 :: "(string \<times> string) list \<Rightarrow> js_value settle" where
  "throws_401 cookies = Rejects 0 (ResponseV \<lparr>status = 401, headers = [], body = Some ''Missing token''\<rparr>)"

definition never_settles :: "(string \<times> string) list \<Rightarrow> js_value settle" where
  "never_settles cookies = Pending"

section \<open>Properties\<close>

subsection \<open>Awaited calls under a pending timer\<close>

text \<open>
  While the timer of the invocation is pending (due at \<open>D\<close>, signal not aborted, the
  time before \<open>D\<close>), an awaited call aborts the signal exactly when it has not
  settled before \<open>D\<close>; otherwise the timer is still pending afterwards.
\<close>


lemma job_end_late: "delay \<le> d \<Longrightarrow> job_end delay (then_settle (Resolves d u) s) = TimedOut"
  by (cases s) (simp_all add: job_end_def)

lemma job_end_rest: "d < delay \<Longrightarrow> job_end delay (then_settle (Resolves d u) s) = job_end (delay - d) s"
  by (cases s) (auto simp add: job_end_def)

lemma call_fst:
  "fst (call name args s st) = (case s of Resolves d v \<Rightarrow> Returned v | Rejects d e \<Rightarrow> Thrown e | Pending \<Rightarrow> Hangs)"
  by (cases s) (simp_all add: call_def)

lemma call_signal:
  assumes "timer st = Some D" "signal st = Some False" "now st < D"
  shows "signal (snd (call name args s st)) = Some (job_end (D - now st) s = TimedOut)"
  using assms
  by (cases s) (auto simp add: call_def advance_def forever_def job_end_def abort_def clearTimeout_def Let_def)

lemma call_live:
  assumes "timer st = Some D" "signal st = Some False" "now st < D" "job_end (D - now st) s \<noteq> TimedOut"
  shows "timer (snd (call name args s st)) = Some D"
    and "now (snd (call name args s st)) < D"
    and "s = Resolves d v \<Longrightarrow> now (snd (call name args s st)) = now st + d"
  using assms
  by (cases s; auto simp add: call_def advance_def forever_def job_end_def abort_def clearTimeout_def Let_def split: if_splits)+

lemma call_hook_fst:
  "fst (call_hook name hook st) =
     (case hook_settle hook of Resolves d v \<Rightarrow> Returned v | Rejects d e \<Rightarrow> Thrown e | Pending \<Rightarrow> Hangs)"
  by (cases hook) (simp_all add: call_hook_def hook_settle_def call_fst)

lemma call_hook_signal:
  assumes "timer st = Some D" "signal st = Some False" "now st < D"
  shows "signal (snd (call_hook name hook st)) = Some (job_end (D - now st) (hook_settle hook) = TimedOut)"
  using assms
  by (cases hook) (simp_all add: call_hook_def hook_settle_def call_signal, simp add: job_end_def)

lemma call_hook_live:
  assumes "timer st = Some D" "signal st = Some False" "now st < D" "job_end (D - now st) (hook_settle hook) \<noteq> TimedOut"
  shows "timer (snd (call_hook name hook st)) = Some D"
    and "now (snd (call_hook name hook st)) < D"
    and "hook_settle hook = Resolves d v \<Longrightarrow> now (snd (call_hook name hook st)) = now st + d"
  using assms
  by (cases hook; simp add: call_hook_def hook_settle_def call_live)+


lemma settled_in_time:
  "job_end k s \<noteq> TimedOut \<Longrightarrow>
     (case s of Resolves d v \<Rightarrow> Returned () | Rejects d e \<Rightarrow> Thrown e | Pending \<Rightarrow> Hangs) =
     (case job_end k s of Completed \<Rightarrow> Returned () | Failed e \<Rightarrow> Thrown e | TimedOut \<Rightarrow> Hangs)"
  by (cases s) (auto simp add: job_end_def split: if_splits)

lemma run_tail:
  fixes h :: "unit settle" and hook :: "unit settle option" and st :: run_state and D :: nat
  assumes live: "timer st = Some D" "signal st = Some False" "now st < D"
  defines "X \<equiv> (case call ''default'' [] h st of
               (Thrown error, st2) \<Rightarrow> (Thrown error, st2)
             | (Hangs, st2) \<Rightarrow> (Hangs, st2)
             | (Returned u, st2) \<Rightarrow>
                 if signal st2 = Some True then (Returned (), st2)
                 else call_hook ''onJobFinished'' hook st2)"
    and "j \<equiv> job_end (D - now st) (then_settle h (hook_settle hook))"
  shows "signal (snd X) = Some (j = TimedOut)"
    and "j \<noteq> TimedOut \<Longrightarrow> fst X = (case j of Completed \<Rightarrow> Returned () | Failed e \<Rightarrow> Thrown e | TimedOut \<Rightarrow> Hangs)"
proof -
  obtain r2 st2 where c: "call ''default'' [] h st = (r2, st2)"
    by (cases "call ''default'' [] h st")
  have r2: "r2 = (case h of Resolves d v \<Rightarrow> Returned v | Rejects d e \<Rightarrow> Thrown e | Pending \<Rightarrow> Hangs)"
    using call_fst [of "''default''" "[]" h st] c by simp
  have s2: "signal st2 = Some (job_end (D - now st) h = TimedOut)"
    using call_signal [OF live, where name = "''default''" and args = "[]" and s = h] c by simp
  have both: "signal (snd X) = Some (j = TimedOut) \<and>
      (j \<noteq> TimedOut \<longrightarrow> fst X = (case j of Completed \<Rightarrow> Returned () | Failed e \<Rightarrow> Thrown e | TimedOut \<Rightarrow> Hangs))"
  proof (cases h)
    case Pending
    then show ?thesis
      using r2 s2 c by (simp add: X_def j_def job_end_def)
  next
    case (Rejects d e)
    then show ?thesis
      using r2 s2 c by (simp add: X_def j_def job_end_def)
  next
    case (Resolves d u)
    show ?thesis
    proof (cases "d < D - now st")
      case False
      then have "j = TimedOut"
        unfolding j_def Resolves by (simp add: job_end_late)
      moreover have "signal st2 = Some True"
        using s2 False Resolves by (simp add: job_end_def)
      ultimately show ?thesis
        using r2 c Resolves by (simp add: X_def)
    next
      case True
      have nt: "job_end (D - now st) h \<noteq> TimedOut"
        using True Resolves by (simp add: job_end_def)
      have t2: "timer st2 = Some D" and n2: "now st2 < D" and n2': "now st2 = now st + d"
        using call_live [OF live nt, where name = "''default''" and args = "[]"] c Resolves by simp_all
      have sg2: "signal st2 = Some False"
        using s2 nt by simp
      have j: "j = job_end (D - now st2) (hook_settle hook)"
        unfolding j_def Resolves using True n2' by (simp add: job_end_rest)
      have X: "X = call_hook ''onJobFinished'' hook st2"
        using c r2 Resolves sg2 by (simp add: X_def)
      show ?thesis
        unfolding X j
        using call_hook_signal [OF t2 sg2 n2, where name = "''onJobFinished''" and hook = hook]
          call_hook_fst [of "''onJobFinished''" hook st2]
          settled_in_time [of "D - now st2" "hook_settle hook"]
        by (auto split: settle.splits)
    qed
  qed
  from both show "signal (snd X) = Some (j = TimedOut)" by simp
  from both show "j \<noteq> TimedOut \<Longrightarrow> fst X = (case j of Completed \<Rightarrow> Returned () | Failed e \<Rightarrow> Thrown e | TimedOut \<Rightarrow> Hangs)" by simp
qed


lemma run_queue:
  fixes h :: "unit settle" and mw :: queue_middleware and st :: run_state and D :: nat
  assumes live: "timer st = Some D" "signal st = Some False" "now st < D"
  defines "j \<equiv> job_end (D - now st) (job_settle mw h)"
  shows "signal (snd (runWithMiddleware_queue mw h st)) = Some (j = TimedOut)"
    and "j \<noteq> TimedOut \<Longrightarrow> fst (runWithMiddleware_queue mw h st) =
           (case j of Completed \<Rightarrow> Returned () | Failed e \<Rightarrow> Thrown e | TimedOut \<Rightarrow> Hangs)"
proof -
  let ?s1 = "hook_settle (onJobStarted mw)"
  let ?rest = "then_settle h (hook_settle (onJobFinished mw))"
  obtain r1 st1 where c: "call_hook ''onJobStarted'' (onJobStarted mw) st = (r1, st1)"
    by (cases "call_hook ''onJobStarted'' (onJobStarted mw) st")
  have r1: "r1 = (case ?s1 of Resolves d v \<Rightarrow> Returned v | Rejects d e \<Rightarrow> Thrown e | Pending \<Rightarrow> Hangs)"
    using call_hook_fst [of "''onJobStarted''" "onJobStarted mw" st] c by simp
  have s1: "signal st1 = Some (job_end (D - now st) ?s1 = TimedOut)"
    using call_hook_signal [OF live, where name = "''onJobStarted''" and hook = "onJobStarted mw"] c by simp
  have both: "signal (snd (runWithMiddleware_queue mw h st)) = Some (j = TimedOut) \<and>
      (j \<noteq> TimedOut \<longrightarrow> fst (runWithMiddleware_queue mw h st) =
           (case j of Completed \<Rightarrow> Returned () | Failed e \<Rightarrow> Thrown e | TimedOut \<Rightarrow> Hangs))"
  proof (cases ?s1)
    case Pending
    then show ?thesis
      using r1 s1 c by (simp add: runWithMiddleware_queue_def j_def job_settle_def job_end_def)
  next
    case (Rejects d e)
    then show ?thesis
      using r1 s1 c by (simp add: runWithMiddleware_queue_def j_def job_settle_def job_end_def)
  next
    case (Resolves d u)
    show ?thesis
    proof (cases "d < D - now st")
      case False
      then have "j = TimedOut"
        unfolding j_def job_settle_def Resolves by (simp add: job_end_late)
      moreover have "signal st1 = Some True"
        using s1 False Resolves by (simp add: job_end_def)
      ultimately show ?thesis
        using r1 c Resolves by (simp add: runWithMiddleware_queue_def)
    next
      case True
      have nt: "job_end (D - now st) ?s1 \<noteq> TimedOut"
        using True Resolves by (simp add: job_end_def)
      have t1: "timer st1 = Some D" and n1: "now st1 < D" and n1': "now st1 = now st + d"
        using call_hook_live [OF live nt, where name = "''onJobStarted''"] c Resolves by simp_all
      have sg1: "signal st1 = Some False"
        using s1 nt by simp
      have j: "j = job_end (D - now st1) ?rest"
        unfolding j_def job_settle_def Resolves using True n1' by (simp add: job_end_rest)
      have run: "runWithMiddleware_queue mw h st =
          (case call ''default'' [] h st1 of
               (Thrown error, st2) \<Rightarrow> (Thrown error, st2)
             | (Hangs, st2) \<Rightarrow> (Hangs, st2)
             | (Returned u, st2) \<Rightarrow>
                 if signal st2 = Some True then (Returned (), st2)
                 else call_hook ''onJobFinished'' (onJobFinished mw) st2)"
        using c r1 Resolves sg1 by (simp add: runWithMiddleware_queue_def)
      show ?thesis
        unfolding run j
        using run_tail [OF t1 sg1 n1, where h = h and hook = "onJobFinished mw"] by simp
    qed
  qed
  from both show "signal (snd (runWithMiddleware_queue mw h st)) = Some (j = TimedOut)" by simp
  from both show "j \<noteq> TimedOut \<Longrightarrow> fst (runWithMiddleware_queue mw h st) =
           (case j of Completed \<Rightarrow> Returned () | Failed e \<Rightarrow> Thrown e | TimedOut \<Rightarrow> Hangs)" by simp
qed

lemma race_queue:
  fixes h :: "unit settle" and mw :: queue_middleware and st :: run_state
  assumes "timer st = Some (now st + delay)" "signal st = Some False" "0 < delay"
  shows "fst (raceAbort () (runWithMiddleware_queue mw h) st) =
           (case job_end delay (job_settle mw h) of
              Completed \<Rightarrow> Returned () | Failed e \<Rightarrow> Thrown e | TimedOut \<Rightarrow> Returned ())"
    and "signal (snd (raceAbort () (runWithMiddleware_queue mw h) st)) =
           Some (job_end delay (job_settle mw h) = TimedOut)"
proof -
  have now: "now st < now st + delay"
    using assms(3) by simp
  obtain r st' where p: "runWithMiddleware_queue mw h st = (r, st')"
    by (cases "runWithMiddleware_queue mw h st")
  have sg: "signal st' = Some (job_end delay (job_settle mw h) = TimedOut)"
    using run_queue(1) [OF assms(1) assms(2) now, of mw h] p by simp
  have r: "job_end delay (job_settle mw h) \<noteq> TimedOut \<Longrightarrow>
      r = (case job_end delay (job_settle mw h) of
             Completed \<Rightarrow> Returned () | Failed e \<Rightarrow> Thrown e | TimedOut \<Rightarrow> Hangs)"
    using run_queue(2) [OF assms(1) assms(2) now, of mw h] p by simp
  show "fst (raceAbort () (runWithMiddleware_queue mw h) st) =
           (case job_end delay (job_settle mw h) of
              Completed \<Rightarrow> Returned () | Failed e \<Rightarrow> Thrown e | TimedOut \<Rightarrow> Returned ())"
    using p sg r assms(2) by (cases "job_end delay (job_settle mw h)") (simp_all add: raceAbort_def Let_def)
  show "signal (snd (raceAbort () (runWithMiddleware_queue mw h) st)) =
           Some (job_end delay (job_settle mw h) = TimedOut)"
    using p sg assms(2) by (simp add: raceAbort_def Let_def)
qed

lemma catch_fst:
  "fst (handleQueuedJob_catch toStr mw q jid e st) = after_onError mw (asError toStr e)"
proof (cases "onError mw")
  case None
  then show ?thesis by (simp add: handleQueuedJob_catch_def after_onError_def)
next
  case (Some f)
  then show ?thesis
    by (cases "f (asError toStr e)") (simp_all add: handleQueuedJob_catch_def after_onError_def call_def Let_def)
qed

lemma timer_delay_pos: "0 < timer_delay ms"
  by (auto simp add: timer_delay_def)

lemma handleQueuedJob_result:
  assumes "queues queueName = Some T" "loaded = Some (h, mw)"
  shows "fst (handleQueuedJob toStr queues loaded queueName jobID R st) =
     (if min (T * 1000) R \<le> 0 then Returned False
      else (case job_end (timer_delay (min (T * 1000) R * 1000)) (job_settle mw h) of
              Completed \<Rightarrow> Returned True
            | Failed e \<Rightarrow> after_onError mw (asError toStr e)
            | TimedOut \<Rightarrow> after_onError mw (timeout_error (min (T * 1000) R))))"
proof (cases "min (T * 1000) R \<le> 0")
  case True
  then show ?thesis using assms by (simp add: handleQueuedJob_def)
next
  case False
  let ?timeout = "min (T * 1000) R"
  let ?delay = "timer_delay (?timeout * 1000)"
  let ?st1 = "setTimeout (?timeout * 1000) (new_AbortController st)"
  have t: "timer ?st1 = Some (now ?st1 + ?delay)" and s: "signal ?st1 = Some False"
    by (simp_all add: setTimeout_def new_AbortController_def timer_delay_def)
  have d: "0 < ?delay"
    by (rule timer_delay_pos)
  obtain r st2 where race: "raceAbort () (runWithMiddleware_queue mw h) ?st1 = (r, st2)"
    by (cases "raceAbort () (runWithMiddleware_queue mw h) ?st1")
  have r: "r = (case job_end ?delay (job_settle mw h) of
              Completed \<Rightarrow> Returned () | Failed e \<Rightarrow> Thrown e | TimedOut \<Rightarrow> Returned ())"
    using race_queue(1) [OF t s d, of mw h] race by simp
  have sg: "signal st2 = Some (job_end ?delay (job_settle mw h) = TimedOut)"
    using race_queue(2) [OF t s d, of mw h] race by simp
  have te: "asError toStr (timeout_error ?timeout) = timeout_error ?timeout"
    by (simp add: asError_def timeout_error_def)
  show ?thesis
  proof (cases "job_end ?delay (job_settle mw h)")
    case Completed
    then show ?thesis
      using False assms race r sg by (simp add: handleQueuedJob_def Let_def)
  next
    case (Failed e)
    then show ?thesis
      using False assms race r sg catch_fst [of toStr mw queueName jobID e st2]
      by (cases "handleQueuedJob_catch toStr mw queueName jobID e st2")
         (auto simp add: handleQueuedJob_def Let_def after_onError_def split: outcome.splits option.splits if_splits)
  next
    case TimedOut
    then show ?thesis
      using False assms race r sg te catch_fst [of toStr mw queueName jobID "timeout_error ?timeout" st2]
      by (cases "handleQueuedJob_catch toStr mw queueName jobID (timeout_error ?timeout) st2")
         (auto simp add: handleQueuedJob_def Let_def after_onError_def split: outcome.splits option.splits if_splits)
  qed
qed

lemma catch_logs:
  "(now st, Console (ConsoleError ''Error in queue %s job %s:'' [StrV q, jid, e]))
     \<in> set (trace (snd (handleQueuedJob_catch toStr mw q jid e st)))"
proof (cases "onError mw")
  case None
  then show ?thesis by (simp add: handleQueuedJob_catch_def console_def)
next
  case (Some f)
  then show ?thesis
    by (cases "f (asError toStr e)")
       (simp_all add: handleQueuedJob_catch_def call_def console_def advance_def forever_def abort_def
          clearTimeout_def Let_def split: option.splits)
qed

lemma finally_logs:
  assumes "x \<in> set (trace (snd tried))"
  shows "x \<in> set (trace (snd (case tried of (Hangs, st3) \<Rightarrow> (Hangs, st3) | (r, st3) \<Rightarrow> (r, abort (clearTimeout st3)))))"
  using assms
  by (cases tried; cases "fst tried") (auto simp add: abort_def clearTimeout_def split: outcome.splits)

lemma handleQueuedJob_logs:
  assumes "queues queueName = Some T" "loaded = Some (h, mw)" "0 < min (T * 1000) R"
  shows "job_end (timer_delay (min (T * 1000) R * 1000)) (job_settle mw h) = Failed e \<Longrightarrow>
           \<exists>t. (t, Console (ConsoleError ''Error in queue %s job %s:'' [StrV queueName, jobID, e]))
                 \<in> set (trace (snd (handleQueuedJob toStr queues loaded queueName jobID R st)))"
    and "job_end (timer_delay (min (T * 1000) R * 1000)) (job_settle mw h) = TimedOut \<Longrightarrow>
           \<exists>t. (t, Console (ConsoleError ''Error in queue %s job %s:''
                  [StrV queueName, jobID, timeout_error (min (T * 1000) R)]))
                 \<in> set (trace (snd (handleQueuedJob toStr queues loaded queueName jobID R st)))"
proof -
  let ?timeout = "min (T * 1000) R"
  let ?delay = "timer_delay (?timeout * 1000)"
  let ?st1 = "setTimeout (?timeout * 1000) (new_AbortController st)"
  have pos: "\<not> ?timeout \<le> 0"
    using assms(3) by linarith
  have t: "timer ?st1 = Some (now ?st1 + ?delay)" and s: "signal ?st1 = Some False"
    by (simp_all add: setTimeout_def new_AbortController_def timer_delay_def)
  have d: "0 < ?delay"
    by (rule timer_delay_pos)
  obtain r st2 where race: "raceAbort () (runWithMiddleware_queue mw h) ?st1 = (r, st2)"
    by (cases "raceAbort () (runWithMiddleware_queue mw h) ?st1")
  have r: "r = (case job_end ?delay (job_settle mw h) of
              Completed \<Rightarrow> Returned () | Failed e \<Rightarrow> Thrown e | TimedOut \<Rightarrow> Returned ())"
    using race_queue(1) [OF t s d, of mw h] race by simp
  have sg: "signal st2 = Some (job_end ?delay (job_settle mw h) = TimedOut)"
    using race_queue(2) [OF t s d, of mw h] race by simp
  {
    assume j: "job_end ?delay (job_settle mw h) = Failed e"
    have "handleQueuedJob toStr queues loaded queueName jobID R st =
        (case handleQueuedJob_catch toStr mw queueName jobID e st2 of
           (Hangs, st3) \<Rightarrow> (Hangs, st3) | (r, st3) \<Rightarrow> (r, abort (clearTimeout st3)))"
      using pos assms(1,2) race r j by (simp add: handleQueuedJob_def Let_def del: min_less_iff_conj)
    then show "\<exists>t. (t, Console (ConsoleError ''Error in queue %s job %s:'' [StrV queueName, jobID, e]))
                 \<in> set (trace (snd (handleQueuedJob toStr queues loaded queueName jobID R st)))"
      using finally_logs [OF catch_logs [of st2 queueName jobID e toStr mw]] by auto
  }
  {
    assume j: "job_end ?delay (job_settle mw h) = TimedOut"
    have "handleQueuedJob toStr queues loaded queueName jobID R st =
        (case handleQueuedJob_catch toStr mw queueName jobID (timeout_error ?timeout) st2 of
           (Hangs, st3) \<Rightarrow> (Hangs, st3) | (r, st3) \<Rightarrow> (r, abort (clearTimeout st3)))"
      using pos assms(1,2) race r sg j by (simp add: handleQueuedJob_def Let_def del: min_less_iff_conj)
    then show "\<exists>t. (t, Console (ConsoleError ''Error in queue %s job %s:''
                  [StrV queueName, jobID, timeout_error (min (T * 1000) R)]))
                 \<in> set (trace (snd (handleQueuedJob toStr queues loaded queueName jobID R st)))"
      using finally_logs [OF catch_logs [of st2 queueName jobID "timeout_error ?timeout" toStr mw]] by auto
  }
qed

subsection \<open>Path patterns\<close>

text \<open>
  C8. Compiling a path is meant to turn every bracket segment into a parameter, also
  where bracket segments follow one another. On \<open>/[a]/[b]\<close> the source leaves the
  second segment as it is: the match of \<open>/[a]/\<close> has consumed the \<open>/\<close> that would have
  to start the match of \<open>/[b]\<close>. The segment-wise compilation gives \<open>/:a/:b\<close>.
\<close>

theorem replaceBracket_consecutive_segments:
  "replaceBracket ''/[a]/[b]'' = ''/:a/[b]'' \<and> spec_replaceBracket ''/[a]/[b]'' = ''/:a/:b''"
  by (simp add: replaceBracket_def match_at_def replacement_def spec_replaceBracket_def
      spec_segment_def is_line_terminator_def)

subsection \<open>Loading a function\<close>

text \<open>
  C9, as stated, would make loading fail whenever the \<open>config\<close> export is not an object.
  A module that exports \<open>config = 0\<close> next to a function loads: the falsy value is
  replaced by the empty object before its type is tested.
\<close>

theorem loadAndVerify_falsy_config_counterexample:
  "typeof (NumV 0) \<noteq> ''object'' \<and>
   fst (loadAndVerify ([], Inr [(''default'', FuncV 0), (''config'', NumV 0)]) ''index.js'' {})
     = Inr \<lparr>config = ObjV [], handler = FuncV 0\<rparr>"
  by (simp add: loadAndVerify_def js_or_def get_prop_def)

text \<open>
  C9, amended. Let \<open>h\<close> be the \<open>handler\<close> export when it is truthy and the \<open>default\<close>
  export otherwise, and \<open>c\<close> the \<open>config\<close> export. Loading a module that \<open>loadModule\<close>
  could read succeeds exactly when \<open>h\<close> is a function and \<open>c\<close> is falsy (missing, null,
  0, the empty string, false) or of type object; it then yields \<open>h\<close> and \<open>c\<close>, the empty
  object standing in for a falsy \<open>c\<close>. Otherwise it throws: the error about the function
  when \<open>h\<close> is not one, else the error about the config.
\<close>

theorem loadAndVerify_loads_iff:
  "(fst (loadAndVerify (cache, Inr exports) filename paths) = Inr r \<longleftrightarrow>
      typeof (js_or (get_prop exports ''handler'') (get_prop exports ''default'')) = ''function'' \<and>
      (truthy (get_prop exports ''config'') \<longrightarrow> typeof (get_prop exports ''config'') = ''object'') \<and>
      r = \<lparr>config = (if truthy (get_prop exports ''config'') then get_prop exports ''config'' else ObjV []),
           handler = js_or (get_prop exports ''handler'') (get_prop exports ''default'')\<rparr>) \<and>
   (typeof (js_or (get_prop exports ''handler'') (get_prop exports ''default'')) \<noteq> ''function'' \<longrightarrow>
      fst (loadAndVerify (cache, Inr exports) filename paths)
        = Inl (ErrorV ''Error'' (''Expected '' @ filename @ '' to export a function (default)''))) \<and>
   (typeof (js_or (get_prop exports ''handler'') (get_prop exports ''default'')) = ''function'' \<and>
    truthy (get_prop exports ''config'') \<and> typeof (get_prop exports ''config'') \<noteq> ''object'' \<longrightarrow>
      fst (loadAndVerify (cache, Inr exports) filename paths)
        = Inl (ErrorV ''Error'' (''Expected '' @ filename @ '' to export an object (config)'')))"
  by (auto simp add: loadAndVerify_def js_or_def Let_def)

theorem loadAndVerify_loads_iff_witness:
  "fst (loadAndVerify ([''a.js''], Inr [(''default'', FuncV 1), (''config'', ObjV [(''timeout'', NumV 30)])]) ''a.js'' {})
     = Inr \<lparr>config = ObjV [(''timeout'', NumV 30)], handler = FuncV 1\<rparr> \<and>
   fst (loadAndVerify ([''b.js''], Inr [(''default'', StrV ''x'')]) ''b.js'' {})
     = Inl (ErrorV ''Error'' ''Expected b.js to export a function (default)'') \<and>
   fst (loadAndVerify ([''c.js''], Inr [(''handler'', FuncV 2), (''config'', StrV ''fast'')]) ''c.js'' {})
     = Inl (ErrorV ''Error'' ''Expected c.js to export an object (config)'')"
  using
    loadAndVerify_loads_iff [of "[''a.js'']" "[(''default'', FuncV 1), (''config'', ObjV [(''timeout'', NumV 30)])]"
      "''a.js''" "{}" "\<lparr>config = ObjV [(''timeout'', NumV 30)], handler = FuncV 1\<rparr>"]
    loadAndVerify_loads_iff [of "[''b.js'']" "[(''default'', StrV ''x'')]" "''b.js''" "{}"]
    loadAndVerify_loads_iff [of "[''c.js'']" "[(''handler'', FuncV 2), (''config'', StrV ''fast'')]" "''c.js''" "{}"]
  by (simp add: js_or_def get_prop_def)

subsection \<open>HTTP replies\<close>

lemma lower_Content_Type: "map lower ''Content-Type'' = ''content-type''"
  by code_simp

lemma new_Headers_Content_Type: "new_Headers [(''Content-Type'', v)] = [(''content-type'', v)]"
  using lower_Content_Type by (simp add: new_Headers_def)

lemma new_Headers_Nil: "new_Headers [] = []"
  by (simp add: new_Headers_def)

lemma base64_Nil: "base64 [] = []"
  by (simp add: base64_def)

lemma base64_true_null: "base64 ''[true,null]'' = ''W3RydWUsbnVsbF0=''"
  by code_simp

text \<open>
  C5, as stated, has every value that is no \<open>Response\<close>, string, \<open>Buffer\<close>, \<open>null\<close> or
  \<open>undefined\<close> serialized as JSON. \<^verbatim>\<open>JSON.stringify\<close> runs inside the \<^verbatim>\<open>try\<close>
  block: for the \<open>BigInt\<close> 10 it throws, and the reply is the 500 text reply of the
  \<^verbatim>\<open>catch\<close> block.
\<close>

theorem asFetchRequest_unserializable_counterexample:
  "other_value (BigIntV 10) \<and>
   asFetchRequest example_stringify example_String (Resolves 0 (BigIntV 10)) =
     (Returned \<lparr>wire_body = base64 ''Do not know how to serialize a BigInt'', bodyEncoding = ''base64'',
                wire_headers = [(''content-type'', ''text/plain;charset=UTF-8'')], statusCode = 500\<rparr>,
      [ConsoleError ''Callback error'' [ErrorV ''TypeError'' ''Do not know how to serialize a BigInt'']])"
  by (simp add: asFetchRequest_def fromFetchResponse_def new_Response_def new_Headers_Nil
      example_stringify_def)

text \<open>
  C5, amended. What \<open>asFetchRequest\<close> replies for each value the handler returns: a
  \<open>Response\<close> goes out with its own status, headers and body and nothing is logged; a
  string, a \<open>String\<close> object or a \<open>Buffer\<close> is the body of a 200 reply of content type
  \<open>text/plain\<close>; \<open>null\<close> and \<open>undefined\<close> give an empty 204 reply and one line on the
  error console; any other value is handed to \<^verbatim>\<open>JSON.stringify\<close>: the text it gives is
  the body of a 200 reply of content type \<open>application/json\<close>; when it gives
  \<open>undefined\<close> the 200 reply of that content type is empty; when it throws, the reply is
  the one for a handler that threw the same value. The body is always sent in base64.
\<close>

theorem asFetchRequest_returned_value:
  "asFetchRequest stringify toStr (Resolves d (ResponseV r)) =
     (Returned \<lparr>wire_body = base64 (case body r of None \<Rightarrow> [] | Some b \<Rightarrow> b), bodyEncoding = ''base64'',
                wire_headers = headers r, statusCode = status r\<rparr>, []) \<and>
   asFetchRequest stringify toStr (Resolves d (StrV s)) =
     (Returned \<lparr>wire_body = base64 s, bodyEncoding = ''base64'',
                wire_headers = [(''content-type'', ''text/plain'')], statusCode = 200\<rparr>, []) \<and>
   asFetchRequest stringify toStr (Resolves d (StringObj s)) =
     (Returned \<lparr>wire_body = base64 s, bodyEncoding = ''base64'',
                wire_headers = [(''content-type'', ''text/plain'')], statusCode = 200\<rparr>, []) \<and>
   asFetchRequest stringify toStr (Resolves d (BufferV b)) =
     (Returned \<lparr>wire_body = base64 b, bodyEncoding = ''base64'',
                wire_headers = [(''content-type'', ''text/plain'')], statusCode = 200\<rparr>, []) \<and>
   (v = Null \<or> v = Undefined \<longrightarrow>
      asFetchRequest stringify toStr (Resolves d v) =
        (Returned \<lparr>wire_body = [], bodyEncoding = ''base64'', wire_headers = [], statusCode = 204\<rparr>,
         [ConsoleError null_or_undefined_message []])) \<and>
   (other_value w \<and> stringify w = Serialized js \<longrightarrow>
      asFetchRequest stringify toStr (Resolves d w) =
        (Returned \<lparr>wire_body = base64 js, bodyEncoding = ''base64'',
                   wire_headers = [(''content-type'', ''application/json'')], statusCode = 200\<rparr>, [])) \<and>
   (other_value w \<and> stringify w = NotSerialized \<longrightarrow>
      asFetchRequest stringify toStr (Resolves d w) =
        (Returned \<lparr>wire_body = [], bodyEncoding = ''base64'',
                   wire_headers = [(''content-type'', ''application/json'')], statusCode = 200\<rparr>, [])) \<and>
   (other_value w \<and> stringify w = StringifyThrows e \<longrightarrow>
      asFetchRequest stringify toStr (Resolves d w) = asFetchRequest stringify toStr (Rejects d e))"
proof -
  have json: "other_value w \<Longrightarrow>
      normalizeReturned stringify w =
        (case stringify w of
           Serialized s \<Rightarrow>
             (Returned (fromFetchResponse (new_Response (BodyString s)
                \<lparr>init_status = None, init_headers = [(''Content-Type'', ''application/json'')]\<rparr>)), [])
         | NotSerialized \<Rightarrow>
             (Returned (fromFetchResponse (new_Response BodyNone
                \<lparr>init_status = None, init_headers = [(''Content-Type'', ''application/json'')]\<rparr>)), [])
         | StringifyThrows e \<Rightarrow> (Thrown e, []))"
    by (cases w) simp_all
  have serialized: "other_value w \<and> stringify w = Serialized js \<longrightarrow>
      asFetchRequest stringify toStr (Resolves d w) =
        (Returned \<lparr>wire_body = base64 js, bodyEncoding = ''base64'',
                   wire_headers = [(''content-type'', ''application/json'')], statusCode = 200\<rparr>, [])"
    using json
    by (auto simp add: asFetchRequest_def fromFetchResponse_def new_Response_def new_Headers_Content_Type)
  have not_serialized: "other_value w \<and> stringify w = NotSerialized \<longrightarrow>
      asFetchRequest stringify toStr (Resolves d w) =
        (Returned \<lparr>wire_body = [], bodyEncoding = ''base64'',
                   wire_headers = [(''content-type'', ''application/json'')], statusCode = 200\<rparr>, [])"
    using json
    by (auto simp add: asFetchRequest_def fromFetchResponse_def new_Response_def new_Headers_Content_Type
        base64_Nil)
  have throws: "other_value w \<and> stringify w = StringifyThrows e \<longrightarrow>
      asFetchRequest stringify toStr (Resolves d w) = asFetchRequest stringify toStr (Rejects d e)"
    using json
    by (cases "normalizeThrown toStr e") (auto simp add: asFetchRequest_def)
  have fixed:
    "asFetchRequest stringify toStr (Resolves d (ResponseV r)) =
       (Returned \<lparr>wire_body = base64 (case body r of None \<Rightarrow> [] | Some b \<Rightarrow> b), bodyEncoding = ''base64'',
                  wire_headers = headers r, statusCode = status r\<rparr>, [])"
    "asFetchRequest stringify toStr (Resolves d (StrV s)) =
       (Returned \<lparr>wire_body = base64 s, bodyEncoding = ''base64'',
                  wire_headers = [(''content-type'', ''text/plain'')], statusCode = 200\<rparr>, [])"
    "asFetchRequest stringify toStr (Resolves d (StringObj s)) =
       (Returned \<lparr>wire_body = base64 s, bodyEncoding = ''base64'',
                  wire_headers = [(''content-type'', ''text/plain'')], statusCode = 200\<rparr>, [])"
    "asFetchRequest stringify toStr (Resolves d (BufferV b)) =
       (Returned \<lparr>wire_body = base64 b, bodyEncoding = ''base64'',
                  wire_headers = [(''content-type'', ''text/plain'')], statusCode = 200\<rparr>, [])"
    "v = Null \<or> v = Undefined \<longrightarrow>
       asFetchRequest stringify toStr (Resolves d v) =
         (Returned \<lparr>wire_body = [], bodyEncoding = ''base64'', wire_headers = [], statusCode = 204\<rparr>,
          [ConsoleError null_or_undefined_message []])"
    by (auto simp add: asFetchRequest_def fromFetchResponse_def new_Response_def
        new_Headers_Content_Type new_Headers_Nil base64_Nil)
  from fixed serialized not_serialized throws show ?thesis
    by (intro conjI)
qed

theorem asFetchRequest_returned_value_witness:
  "asFetchRequest example_stringify example_String (Resolves 3 Null) =
     (Returned \<lparr>wire_body = [], bodyEncoding = ''base64'', wire_headers = [], statusCode = 204\<rparr>,
      [ConsoleError null_or_undefined_message []]) \<and>
   asFetchRequest example_stringify example_String (Resolves 3 (ArrV [BoolV True, Null])) =
     (Returned \<lparr>wire_body = ''W3RydWUsbnVsbF0='', bodyEncoding = ''base64'',
                wire_headers = [(''content-type'', ''application/json'')], statusCode = 200\<rparr>, []) \<and>
   asFetchRequest example_stringify example_String (Resolves 3 (FuncV 0)) =
     (Returned \<lparr>wire_body = [], bodyEncoding = ''base64'',
                wire_headers = [(''content-type'', ''application/json'')], statusCode = 200\<rparr>, []) \<and>
   asFetchRequest example_stringify example_String (Resolves 3 (BigIntV 10)) =
     asFetchRequest example_stringify example_String
       (Rejects 3 (ErrorV ''TypeError'' ''Do not know how to serialize a BigInt''))"
proof -
  have o: "other_value (ArrV [BoolV True, Null])
      \<and> example_stringify (ArrV [BoolV True, Null]) = Serialized ''[true,null]''"
    "other_value (FuncV 0) \<and> example_stringify (FuncV 0) = NotSerialized"
    "other_value (BigIntV 10) \<and> example_stringify (BigIntV 10) =
       StringifyThrows (ErrorV ''TypeError'' ''Do not know how to serialize a BigInt'')"
    by (simp_all add: example_stringify_def)
  show ?thesis
    using o
      asFetchRequest_returned_value [where stringify = example_stringify and toStr = example_String
        and d = 3 and v = Null and w = "ArrV [BoolV True, Null]" and js = "''[true,null]''"]
      asFetchRequest_returned_value [where stringify = example_stringify and toStr = example_String
        and d = 3 and w = "FuncV 0"]
      asFetchRequest_returned_value [where stringify = example_stringify and toStr = example_String
        and d = 3 and w = "BigIntV 10" and e = "ErrorV ''TypeError'' ''Do not know how to serialize a BigInt''"]
    by (simp add: base64_true_null)
qed

text \<open>
  C3, as stated, promises a generic 500 reply that carries no detail of the error. The
  reply to a thrown \<open>Error\<close> has its message as the body.
\<close>

theorem asFetchRequest_error_message_counterexample:
  "asFetchRequest example_stringify example_String
     (Rejects 0 (ErrorV ''Error'' ''connect ECONNREFUSED 10.0.0.5:5432'')) =
     (Returned \<lparr>wire_body = base64 ''connect ECONNREFUSED 10.0.0.5:5432'', bodyEncoding = ''base64'',
                wire_headers = [(''content-type'', ''text/plain;charset=UTF-8'')], statusCode = 500\<rparr>,
      [ConsoleError ''Callback error'' [ErrorV ''Error'' ''connect ECONNREFUSED 10.0.0.5:5432'']])"
  by (simp add: asFetchRequest_def fromFetchResponse_def new_Response_def new_Headers_Nil)

text \<open>
  C3, amended. A thrown \<open>Response\<close> is the reply, with its status and its body (and no
  headers). Any other thrown value is logged and answered with status 500, the body
  being the message of an \<open>Error\<close> and the string conversion of any other value.
\<close>

theorem asFetchRequest_thrown_value:
  "asFetchRequest stringify toStr (Rejects d (ResponseV r)) =
     (Returned \<lparr>wire_body = base64 (case body r of None \<Rightarrow> [] | Some b \<Rightarrow> b), bodyEncoding = ''base64'',
                wire_headers = [], statusCode = status r\<rparr>, []) \<and>
   asFetchRequest stringify toStr (Rejects d (ErrorV n m)) =
     (Returned \<lparr>wire_body = base64 m, bodyEncoding = ''base64'',
                wire_headers = [(''content-type'', ''text/plain;charset=UTF-8'')], statusCode = 500\<rparr>,
      [ConsoleError ''Callback error'' [ErrorV n m]]) \<and>
   ((\<forall>r. e \<noteq> ResponseV r) \<and> \<not> is_Error e \<longrightarrow>
      asFetchRequest stringify toStr (Rejects d e) =
        (Returned \<lparr>wire_body = base64 (toStr e), bodyEncoding = ''base64'',
                   wire_headers = [(''content-type'', ''text/plain;charset=UTF-8'')], statusCode = 500\<rparr>,
         [ConsoleError ''Callback error'' [e]]))"
proof -
  have other: "(\<forall>r. e \<noteq> ResponseV r) \<Longrightarrow> \<not> is_Error e \<Longrightarrow>
      normalizeThrown toStr e =
        (fromFetchResponse (new_Response (BodyString (toStr e)) \<lparr>init_status = Some 500, init_headers = []\<rparr>),
         [ConsoleError ''Callback error'' [e]])"
    by (cases e) simp_all
  show ?thesis
    using other
    by (auto simp add: asFetchRequest_def fromFetchResponse_def new_Response_def new_Headers_Nil
        split: option.splits)
qed

theorem asFetchRequest_thrown_value_witness:
  "asFetchRequest example_stringify example_String
     (Rejects 0 (ResponseV \<lparr>status = 422, headers = [(''content-type'', ''text/plain'')], body = Some ''title is required''\<rparr>)) =
     (Returned \<lparr>wire_body = base64 ''title is required'', bodyEncoding = ''base64'',
                wire_headers = [], statusCode = 422\<rparr>, []) \<and>
   asFetchRequest example_stringify example_String (Rejects 0 (StrV ''boom'')) =
     (Returned \<lparr>wire_body = base64 ''boom'', bodyEncoding = ''base64'',
                wire_headers = [(''content-type'', ''text/plain;charset=UTF-8'')], statusCode = 500\<rparr>,
      [ConsoleError ''Callback error'' [StrV ''boom'']])"
proof -
  have o: "(\<forall>r. StrV ''boom'' \<noteq> ResponseV r) \<and> \<not> is_Error (StrV ''boom'')"
    by simp
  show ?thesis
    using o asFetchRequest_thrown_value [of example_stringify example_String 0
        "\<lparr>status = 422, headers = [(''content-type'', ''text/plain'')], body = Some ''title is required''\<rparr>"
        _ _ "StrV ''boom''"]
    by (simp add: example_String_def)
qed

subsection \<open>Queued jobs\<close>

lemmas queue_run_defs =
  handleQueuedJob_def handleQueuedJob_catch_def raceAbort_def runWithMiddleware_queue_def
  call_hook_def call_def advance_def forever_def setTimeout_def clearTimeout_def
  new_AbortController_def abort_def console_def initial_state_def Let_def
  no_queue_middleware_def

lemma timeout_error_5000:
  "timeout_error 5000 = ErrorV ''Error'' ''Timeout: job took longer than 5000s to process''"
  by (simp add: timeout_error_def decimal_def decimal_nat.simps)

lemma after_onError_not_True: "after_onError mw e \<noteq> Returned True"
  by (simp add: after_onError_def split: option.splits)

text \<open>
  C1, as stated, knows exactly two situations in which \<open>handleQueuedJob\<close> returns
  false: the time budget is used up at entry, or the timer fires before the handler has
  settled. A handler that throws after 10 ms, within a budget of 30 s, is a third one: the
  budget is positive, the job has ended (\<open>Failed\<close>) long before the timer is due, and the
  result is false.
\<close>

theorem handleQueuedJob_thrown_error_counterexample:
  "fst (handleQueuedJob example_String [''screenshots'' \<mapsto> 30]
          (Some (Rejects 10 (ErrorV ''Error'' ''boom''), no_queue_middleware))
          ''screenshots'' (StrV ''job-1'') 30000 initial_state) = Returned False \<and>
   0 < min (30 * 1000) (30000 :: int) \<and>
   job_end (timer_delay (min (30 * 1000) 30000 * 1000))
     (job_settle no_queue_middleware (Rejects 10 (ErrorV ''Error'' ''boom''))) = Failed (ErrorV ''Error'' ''boom'')"
  by (simp add: queue_run_defs job_end_def job_settle_def hook_settle_def timer_delay_def)

text \<open>
  C1, amended. For a queue of the manifest whose module loaded, with
  \<open>timeout = min (T * 1000) R\<close> (\<open>T\<close> the declared timeout, \<open>R\<close> the remaining time):
  when \<open>timeout \<le> 0\<close> the call returns false at once and nothing is called or logged;
  otherwise the timer is set to \<open>timeout * 1000\<close> ms and the call returns true exactly
  when \<open>onJobStarted\<close>, the handler and \<open>onJobFinished\<close> have all resolved before the
  timer is due. In every other case (the timer fires first, or one of the three throws
  before) the \<^verbatim>\<open>catch\<close> block runs: it returns false once \<open>onError\<close> has settled (and the
  call never returns if \<open>onError\<close> never settles). The boolean does not tell a timeout
  from a thrown error; only the error handed to the console and to \<open>onError\<close> does: the
  error console gets the line \<open>Error in queue %s job %s:\<close> with the thrown value, or with
  the timeout error when the timer fired first.
\<close>

theorem handleQueuedJob_outcome:
  assumes "queues queueName = Some T" and "loaded = Some (h, mw)"
  shows "(min (T * 1000) R \<le> 0 \<longrightarrow>
            handleQueuedJob toStr queues loaded queueName jobID R st = (Returned False, st)) \<and>
         (0 < min (T * 1000) R \<longrightarrow>
            fst (handleQueuedJob toStr queues loaded queueName jobID R st) =
              (case job_end (timer_delay (min (T * 1000) R * 1000)) (job_settle mw h) of
                 Completed \<Rightarrow> Returned True
               | Failed e \<Rightarrow> after_onError mw (asError toStr e)
               | TimedOut \<Rightarrow> after_onError mw (timeout_error (min (T * 1000) R)))) \<and>
         (fst (handleQueuedJob toStr queues loaded queueName jobID R st) = Returned True \<longleftrightarrow>
            0 < min (T * 1000) R \<and>
            job_end (timer_delay (min (T * 1000) R * 1000)) (job_settle mw h) = Completed) \<and>
         (0 < min (T * 1000) R \<and>
          job_end (timer_delay (min (T * 1000) R * 1000)) (job_settle mw h) = Failed error \<longrightarrow>
            (\<exists>t. (t, Console (ConsoleError ''Error in queue %s job %s:'' [StrV queueName, jobID, error]))
                   \<in> set (trace (snd (handleQueuedJob toStr queues loaded queueName jobID R st))))) \<and>
         (0 < min (T * 1000) R \<and>
          job_end (timer_delay (min (T * 1000) R * 1000)) (job_settle mw h) = TimedOut \<longrightarrow>
            (\<exists>t. (t, Console (ConsoleError ''Error in queue %s job %s:''
                         [StrV queueName, jobID, timeout_error (min (T * 1000) R)]))
                   \<in> set (trace (snd (handleQueuedJob toStr queues loaded queueName jobID R st)))))"
proof -
  have exhausted: "min (T * 1000) R \<le> 0 \<longrightarrow>
      handleQueuedJob toStr queues loaded queueName jobID R st = (Returned False, st)"
    using assms by (simp add: handleQueuedJob_def)
  have result: "fst (handleQueuedJob toStr queues loaded queueName jobID R st) =
     (if min (T * 1000) R \<le> 0 then Returned False
      else (case job_end (timer_delay (min (T * 1000) R * 1000)) (job_settle mw h) of
              Completed \<Rightarrow> Returned True
            | Failed e \<Rightarrow> after_onError mw (asError toStr e)
            | TimedOut \<Rightarrow> after_onError mw (timeout_error (min (T * 1000) R))))"
    by (rule handleQueuedJob_result [where queues = queues and queueName = queueName, OF assms])
  have true_iff: "fst (handleQueuedJob toStr queues loaded queueName jobID R st) = Returned True \<longleftrightarrow>
      0 < min (T * 1000) R \<and>
      job_end (timer_delay (min (T * 1000) R * 1000)) (job_settle mw h) = Completed"
    unfolding result
    by (cases "job_end (timer_delay (min (T * 1000) R * 1000)) (job_settle mw h)")
       (auto simp add: after_onError_not_True)
  have outcome: "(min (T * 1000) R \<le> 0 \<longrightarrow>
            handleQueuedJob toStr queues loaded queueName jobID R st = (Returned False, st)) \<and>
         (0 < min (T * 1000) R \<longrightarrow>
            fst (handleQueuedJob toStr queues loaded queueName jobID R st) =
              (case job_end (timer_delay (min (T * 1000) R * 1000)) (job_settle mw h) of
                 Completed \<Rightarrow> Returned True
               | Failed e \<Rightarrow> after_onError mw (asError toStr e)
               | TimedOut \<Rightarrow> after_onError mw (timeout_error (min (T * 1000) R)))) \<and>
         (fst (handleQueuedJob toStr queues loaded queueName jobID R st) = Returned True \<longleftrightarrow>
            0 < min (T * 1000) R \<and>
            job_end (timer_delay (min (T * 1000) R * 1000)) (job_settle mw h) = Completed)"
    using exhausted result true_iff by (simp del: min_less_iff_conj)
  have failed: "0 < min (T * 1000) R \<and>
          job_end (timer_delay (min (T * 1000) R * 1000)) (job_settle mw h) = Failed error \<longrightarrow>
            (\<exists>t. (t, Console (ConsoleError ''Error in queue %s job %s:'' [StrV queueName, jobID, error]))
                   \<in> set (trace (snd (handleQueuedJob toStr queues loaded queueName jobID R st))))"
  proof
    assume a: "0 < min (T * 1000) R \<and>
          job_end (timer_delay (min (T * 1000) R * 1000)) (job_settle mw h) = Failed error"
    show "\<exists>t. (t, Console (ConsoleError ''Error in queue %s job %s:'' [StrV queueName, jobID, error]))
                   \<in> set (trace (snd (handleQueuedJob toStr queues loaded queueName jobID R st)))"
      by (rule handleQueuedJob_logs(1) [where queues = queues and queueName = queueName,
            OF assms a [THEN conjunct1] a [THEN conjunct2]])
  qed
  have timed_out: "0 < min (T * 1000) R \<and>
          job_end (timer_delay (min (T * 1000) R * 1000)) (job_settle mw h) = TimedOut \<longrightarrow>
            (\<exists>t. (t, Console (ConsoleError ''Error in queue %s job %s:''
                         [StrV queueName, jobID, timeout_error (min (T * 1000) R)]))
                   \<in> set (trace (snd (handleQueuedJob toStr queues loaded queueName jobID R st))))"
  proof
    assume a: "0 < min (T * 1000) R \<and>
          job_end (timer_delay (min (T * 1000) R * 1000)) (job_settle mw h) = TimedOut"
    show "\<exists>t. (t, Console (ConsoleError ''Error in queue %s job %s:''
                         [StrV queueName, jobID, timeout_error (min (T * 1000) R)]))
                   \<in> set (trace (snd (handleQueuedJob toStr queues loaded queueName jobID R st)))"
      by (rule handleQueuedJob_logs(2) [where queues = queues and queueName = queueName,
            OF assms a [THEN conjunct1] a [THEN conjunct2]])
  qed
  show ?thesis
  proof (intro conjI)
    show "min (T * 1000) R \<le> 0 \<longrightarrow>
            handleQueuedJob toStr queues loaded queueName jobID R st = (Returned False, st)"
      by (rule outcome [THEN conjunct1])
    show "0 < min (T * 1000) R \<longrightarrow>
            fst (handleQueuedJob toStr queues loaded queueName jobID R st) =
              (case job_end (timer_delay (min (T * 1000) R * 1000)) (job_settle mw h) of
                 Completed \<Rightarrow> Returned True
               | Failed e \<Rightarrow> after_onError mw (asError toStr e)
               | TimedOut \<Rightarrow> after_onError mw (timeout_error (min (T * 1000) R)))"
      by (rule outcome [THEN conjunct2, THEN conjunct1])
    show "fst (handleQueuedJob toStr queues loaded queueName jobID R st) = Returned True \<longleftrightarrow>
            0 < min (T * 1000) R \<and>
            job_end (timer_delay (min (T * 1000) R * 1000)) (job_settle mw h) = Completed"
      by (rule true_iff)
    show "0 < min (T * 1000) R \<and>
          job_end (timer_delay (min (T * 1000) R * 1000)) (job_settle mw h) = Failed error \<longrightarrow>
            (\<exists>t. (t, Console (ConsoleError ''Error in queue %s job %s:'' [StrV queueName, jobID, error]))
                   \<in> set (trace (snd (handleQueuedJob toStr queues loaded queueName jobID R st))))"
      by (rule failed)
    show "0 < min (T * 1000) R \<and>
          job_end (timer_delay (min (T * 1000) R * 1000)) (job_settle mw h) = TimedOut \<longrightarrow>
            (\<exists>t. (t, Console (ConsoleError ''Error in queue %s job %s:''
                         [StrV queueName, jobID, timeout_error (min (T * 1000) R)]))
                   \<in> set (trace (snd (handleQueuedJob toStr queues loaded queueName jobID R st))))"
      by (rule timed_out)
  qed
qed

theorem handleQueuedJob_outcome_witness:
  "handleQueuedJob example_String [''screenshots'' \<mapsto> 30] (Some (Resolves 10 (), no_queue_middleware))
     ''screenshots'' (StrV ''job-1'') 0 initial_state = (Returned False, initial_state) \<and>
   fst (handleQueuedJob example_String [''screenshots'' \<mapsto> 30] (Some (Pending, no_queue_middleware))
     ''screenshots'' (StrV ''job-1'') 30000 initial_state) = Returned False \<and>
   fst (handleQueuedJob example_String [''screenshots'' \<mapsto> 30] (Some (Resolves 10 (), no_queue_middleware))
     ''screenshots'' (StrV ''job-1'') 30000 initial_state) = Returned True \<and>
   (\<exists>t. (t, Console (ConsoleError ''Error in queue %s job %s:''
                [StrV ''screenshots'', StrV ''job-1'', timeout_error 30000]))
          \<in> set (trace (snd (handleQueuedJob example_String [''screenshots'' \<mapsto> 30]
                   (Some (Pending, no_queue_middleware)) ''screenshots'' (StrV ''job-1'') 30000
                   initial_state)))) \<and>
   (\<exists>t. (t, Console (ConsoleError ''Error in queue %s job %s:''
                [StrV ''screenshots'', StrV ''job-1'', ErrorV ''Error'' ''boom'']))
          \<in> set (trace (snd (handleQueuedJob example_String [''screenshots'' \<mapsto> 30]
                   (Some (Rejects 10 (ErrorV ''Error'' ''boom''), no_queue_middleware)) ''screenshots''
                   (StrV ''job-1'') 30000 initial_state))))"
proof -
  have q: "[''screenshots'' \<mapsto> 30 :: int] ''screenshots'' = Some 30"
    by simp
  show ?thesis
    using
      handleQueuedJob_outcome [where queues = "[''screenshots'' \<mapsto> 30]" and queueName = "''screenshots''"
        and loaded = "Some (Resolves 10 (), no_queue_middleware)" and R = 0 and toStr = example_String
        and jobID = "StrV ''job-1''" and st = initial_state, OF q refl]
      handleQueuedJob_outcome [where queues = "[''screenshots'' \<mapsto> 30]" and queueName = "''screenshots''"
        and loaded = "Some (Pending, no_queue_middleware)" and R = 30000 and toStr = example_String
        and jobID = "StrV ''job-1''" and st = initial_state, OF q refl]
      handleQueuedJob_outcome [where queues = "[''screenshots'' \<mapsto> 30]" and queueName = "''screenshots''"
        and loaded = "Some (Resolves 10 (), no_queue_middleware)" and R = 30000 and toStr = example_String
        and jobID = "StrV ''job-1''" and st = initial_state, OF q refl]
      handleQueuedJob_outcome [where queues = "[''screenshots'' \<mapsto> 30]" and queueName = "''screenshots''"
        and loaded = "Some (Rejects 10 (ErrorV ''Error'' ''boom''), no_queue_middleware)" and R = 30000
        and toStr = example_String and jobID = "StrV ''job-1''" and st = initial_state
        and error = "ErrorV ''Error'' ''boom''", OF q refl]
    by (simp add: job_end_def job_settle_def hook_settle_def timer_delay_def after_onError_def
        no_queue_middleware_def)
qed

text \<open>
  C2. The timer is meant to fire once the smaller of the declared timeout and the
  remaining time has passed: a job of a queue with a timeout of 5 s that takes longer is
  reported as not completed after about 5 s. \<open>handleQueuedJob\<close> computes that minimum in
  milliseconds (\<open>queue.timeout * 1000\<close> against \<open>remainingTime\<close>, for which the callers
  pass milliseconds) and multiplies it by 1000 again for \<^verbatim>\<open>setTimeout\<close>. With a
  timeout of 5 s and 30000 ms left, a handler that takes 6 s completes and the call
  returns true; a handler that never settles is timed out after 5000000 ms.
\<close>

theorem handleQueuedJob_timer_delay_5s:
  "handleQueuedJob example_String [''screenshots'' \<mapsto> 5] (Some (Resolves 6000 (), no_queue_middleware))
     ''screenshots'' (StrV ''job-1'') 30000 initial_state =
     (Returned True,
      \<lparr>now = 6000, timer = None, signal = Some True, trace = [(0, Called ''default'' [])]\<rparr>) \<and>
   handleQueuedJob example_String [''screenshots'' \<mapsto> 5] (Some (Pending, no_queue_middleware))
     ''screenshots'' (StrV ''job-1'') 30000 initial_state =
     (Returned False,
      \<lparr>now = 5000000, timer = None, signal = Some True,
         trace = [(0, Called ''default'' []),
                  (5000000, Console (ConsoleError ''Error in queue %s job %s:''
                      [StrV ''screenshots'', StrV ''job-1'',
                       ErrorV ''Error'' ''Timeout: job took longer than 5000s to process'']))]\<rparr>)"
  by (simp add: queue_run_defs timeout_error_5000)

subsection \<open>The \<^verbatim>\<open>finally\<close> blocks\<close>

lemma finally_clears:
  assumes "(case tried of (Hangs, st3) \<Rightarrow> (Hangs, st3) | (r, st3) \<Rightarrow> (r, abort (clearTimeout st3))) = res"
    and "fst res \<noteq> Hangs"
  shows "timer (snd res) = None \<and> signal (snd res) = Some True"
proof -
  obtain r st3 where t: "tried = (r, st3)" by (cases tried)
  show ?thesis
    using assms unfolding t by (cases r) (auto simp add: abort_def clearTimeout_def)
qed

lemma handleQueuedJob_armed:
  assumes "queues queueName = Some T" and "loaded = Some (h, mw)" and "0 < min (T * 1000) R"
    and "fst (handleQueuedJob toStr queues loaded queueName jobID R st) \<noteq> Hangs"
  shows "timer (snd (handleQueuedJob toStr queues loaded queueName jobID R st)) = None \<and>
         signal (snd (handleQueuedJob toStr queues loaded queueName jobID R st)) = Some True"
proof -
  let ?timeout = "min (T * 1000) R"
  let ?st1 = "setTimeout (?timeout * 1000) (new_AbortController st)"
  let ?tried = "(case raceAbort () (runWithMiddleware_queue mw h) ?st1 of
                               (Returned u, st2) \<Rightarrow>
                                 if signal st2 = Some True
                                 then handleQueuedJob_catch toStr mw queueName jobID
                                        (timeout_error ?timeout) st2
                                 else (Returned True, st2)
                             | (Thrown error, st2) \<Rightarrow>
                                 handleQueuedJob_catch toStr mw queueName jobID error st2
                             | (Hangs, st2) \<Rightarrow> (Hangs, st2))"
  have eq: "(case ?tried of (Hangs, st3) \<Rightarrow> (Hangs, st3) | (r, st3) \<Rightarrow> (r, abort (clearTimeout st3))) =
      handleQueuedJob toStr queues loaded queueName jobID R st"
    using assms(1-3) by (simp add: handleQueuedJob_def Let_def del: min_less_iff_conj)
  show ?thesis
    by (rule finally_clears [OF eq assms(4)])
qed

lemma handleQueuedJob_not_armed:
  assumes "queues queueName = None \<or> loaded = None \<or> (\<exists>T. queues queueName = Some T \<and> min (T * 1000) R \<le> 0)"
  shows "snd (handleQueuedJob toStr queues loaded queueName jobID R st) = st"
  using assms by (auto simp add: handleQueuedJob_def Let_def split: option.splits)

lemma handleRoute_finally:
  assumes "fst (handleRoute parse stringify toStr ct data fn rh mw timeout st) \<noteq> Hangs"
  shows "timer (snd (handleRoute parse stringify toStr ct data fn rh mw timeout st)) = None \<and>
         signal (snd (handleRoute parse stringify toStr ct data fn rh mw timeout st)) = Some True"
proof -
  have eq: "(case runWithMiddleware_ws parse stringify toStr ct data fn rh mw
                  (setTimeout (timeout * 1000) (new_AbortController st)) of
               (Hangs, st3) \<Rightarrow> (Hangs, st3) | (r, st3) \<Rightarrow> (r, abort (clearTimeout st3))) =
      handleRoute parse stringify toStr ct data fn rh mw timeout st"
    by (simp add: handleRoute_def Let_def)
  show ?thesis
    by (rule finally_clears [OF eq assms])
qed

subsection \<open>The reply of the socket\<close>


lemma handleResponse_fst:
  "fst (handleResponse stringify mw response st) = response_outcome stringify mw response"
proof (cases "resultToBuffer stringify response")
  case (Inl e)
  then show ?thesis by (simp add: handleResponse_def response_outcome_def)
next
  case (Inr data)
  show ?thesis
  proof (cases "onMessageSent mw")
    case None
    then show ?thesis using Inr by (simp add: handleResponse_def response_outcome_def sent_outcome_def)
  next
    case (Some s)
    then show ?thesis using Inr
      by (cases s) (simp_all add: handleResponse_def response_outcome_def sent_outcome_def call_def)
  qed
qed

lemma handleOnError_fst:
  "fst (handleOnError toStr fn mw e st) =
     (case onError_ws mw of None \<Rightarrow> Returned ()
      | Some f \<Rightarrow> if f (asError toStr e) = Pending then Hangs else Returned ())"
proof (cases "onError_ws mw")
  case None
  then show ?thesis by (simp add: handleOnError_def)
next
  case (Some f)
  then show ?thesis
    by (cases "f (asError toStr e)") (simp_all add: handleOnError_def call_def)
qed

lemma runWithMiddleware_catch_fst:
  "fst (runWithMiddleware_catch stringify toStr fn mw e st) = error_outcome stringify toStr mw e"
proof -
  obtain r st1 where h: "handleOnError toStr fn mw e st = (r, st1)"
    by (cases "handleOnError toStr fn mw e st")
  have r: "r = (case onError_ws mw of None \<Rightarrow> Returned ()
      | Some f \<Rightarrow> if f (asError toStr e) = Pending then Hangs else Returned ())"
    using handleOnError_fst [of toStr fn mw e st] h by simp
  show ?thesis
    using h r handleResponse_fst [of stringify mw "ObjV [(''error'', StrV (toStr e))]" st1]
    by (auto simp add: runWithMiddleware_catch_def error_outcome_def Let_def split: option.splits)
qed

text \<open>The reply of the socket's runWithMiddleware, given how the race ended.\<close>

lemma runWithMiddleware_ws_fst:
  assumes "bufferToData parse ct data = Inr rd"
    and "raceAbort Undefined
           (\<lambda>s. case call_hook ''onMessageReceived'' (onMessageReceived mw) s of
                   (Returned u, s1) \<Rightarrow> call ''handler'' [rd] (rh rd) s1
                 | (Thrown error, s1) \<Rightarrow> (Thrown error, s1)
                 | (Hangs, s1) \<Rightarrow> (Hangs, s1)) st = (r, st1)"
  shows "fst (runWithMiddleware_ws parse stringify toStr ct data fn rh mw st) =
     (case r of
        Returned response \<Rightarrow>
          if signal st1 = Some True
          then error_outcome stringify toStr mw (ErrorV ''TimeoutError'' ''Request aborted: timed out'')
          else if \<not> truthy response then Returned None
          else (case resultToBuffer stringify response of
                  Inl e \<Rightarrow> error_outcome stringify toStr mw e
                | Inr d \<Rightarrow> sent_outcome mw d)
      | Thrown e \<Rightarrow> error_outcome stringify toStr mw e
      | Hangs \<Rightarrow> Hangs)"
proof (cases r)
  case Hangs
  then show ?thesis using assms by (simp add: runWithMiddleware_ws_def)
next
  case (Thrown e)
  then show ?thesis using assms by (simp add: runWithMiddleware_ws_def runWithMiddleware_catch_fst)
next
  case (Returned response)
  show ?thesis
  proof (cases "signal st1 = Some True \<or> \<not> truthy response")
    case True
    then show ?thesis using assms Returned
      by (auto simp add: runWithMiddleware_ws_def runWithMiddleware_catch_fst)
  next
    case False
    obtain r2 st2 where hr: "handleResponse stringify mw response st1 = (r2, st2)"
      by (cases "handleResponse stringify mw response st1")
    have r2: "r2 = response_outcome stringify mw response"
      using handleResponse_fst [of stringify mw response st1] hr by simp
    show ?thesis
    proof (cases "resultToBuffer stringify response")
      case (Inl e)
      then have "r2 = Thrown e" using r2 by (simp add: response_outcome_def)
      then show ?thesis using assms Returned False hr Inl
        by (simp add: runWithMiddleware_ws_def runWithMiddleware_catch_fst)
    next
      case (Inr d)
      then have "r2 = sent_outcome mw d" using r2 by (simp add: response_outcome_def)
      then show ?thesis using assms Returned False hr Inr
        by (cases "sent_outcome mw d")
           (auto simp add: runWithMiddleware_ws_def sent_outcome_def split: option.splits if_splits)
    qed
  qed
qed

lemma handleRoute_fst:
  "fst (handleRoute parse stringify toStr ct data fn rh mw timeout st) =
   fst (runWithMiddleware_ws parse stringify toStr ct data fn rh mw
          (setTimeout (timeout * 1000) (new_AbortController st)))"
proof -
  obtain r st2 where rw: "runWithMiddleware_ws parse stringify toStr ct data fn rh mw
          (setTimeout (timeout * 1000) (new_AbortController st)) = (r, st2)"
    by (cases "runWithMiddleware_ws parse stringify toStr ct data fn rh mw
          (setTimeout (timeout * 1000) (new_AbortController st))")
  show ?thesis
    using rw by (cases r) (simp_all add: handleRoute_def Let_def)
qed

lemma onMessageSent_fst:
  "fst (runWithMiddleware_ws parse stringify toStr ct data fn rh (mw\<lparr>onMessageSent := Some (Rejects d e)\<rparr>) st) =
   fst (runWithMiddleware_ws parse stringify toStr ct data fn rh (mw\<lparr>onMessageSent := Some (Resolves d ())\<rparr>) st)"
proof (cases "bufferToData parse ct data")
  case (Inl x)
  then show ?thesis by (simp add: runWithMiddleware_ws_def)
next
  case (Inr rd)
  obtain r st1 where race: "raceAbort Undefined
           (\<lambda>s. case call_hook ''onMessageReceived'' (onMessageReceived mw) s of
                   (Returned u, s1) \<Rightarrow> call ''handler'' [rd] (rh rd) s1
                 | (Thrown error, s1) \<Rightarrow> (Thrown error, s1)
                 | (Hangs, s1) \<Rightarrow> (Hangs, s1)) st = (r, st1)"
    by (cases "raceAbort Undefined
           (\<lambda>s. case call_hook ''onMessageReceived'' (onMessageReceived mw) s of
                   (Returned u, s1) \<Rightarrow> call ''handler'' [rd] (rh rd) s1
                 | (Thrown error, s1) \<Rightarrow> (Thrown error, s1)
                 | (Hangs, s1) \<Rightarrow> (Hangs, s1)) st")
  have so: "sent_outcome (mw\<lparr>onMessageSent := Some (Rejects d e)\<rparr>) =
             sent_outcome (mw\<lparr>onMessageSent := Some (Resolves d ())\<rparr>)"
    by (rule ext) (simp add: sent_outcome_def)
  have ro: "response_outcome stringify (mw\<lparr>onMessageSent := Some (Rejects d e)\<rparr>) =
             response_outcome stringify (mw\<lparr>onMessageSent := Some (Resolves d ())\<rparr>)"
    by (rule ext) (simp add: response_outcome_def so split: sum.splits)
  have eo: "error_outcome stringify toStr (mw\<lparr>onMessageSent := Some (Rejects d e)\<rparr>) =
             error_outcome stringify toStr (mw\<lparr>onMessageSent := Some (Resolves d ())\<rparr>)"
    by (rule ext) (simp add: error_outcome_def ro Let_def split: option.splits)
  show ?thesis
    using runWithMiddleware_ws_fst [where mw = "mw\<lparr>onMessageSent := Some (Rejects d e)\<rparr>" and stringify = stringify
        and toStr = toStr and fn = fn, OF Inr] 
      runWithMiddleware_ws_fst [where mw = "mw\<lparr>onMessageSent := Some (Resolves d ())\<rparr>" and stringify = stringify
        and toStr = toStr and fn = fn, OF Inr] race
    by (simp add: so eo split: outcome.splits sum.splits)
qed

subsection \<open>Timer and signal when the call returns\<close>

lemmas ws_run_defs =
  handleRoute_def runWithMiddleware_ws_def runWithMiddleware_catch_def handleOnError_def handleResponse_def
  resultToBuffer_def bufferToData_def raceAbort_def call_hook_def call_def advance_def forever_def
  setTimeout_def clearTimeout_def new_AbortController_def abort_def console_def initial_state_def Let_def
  no_websocket_middleware_def echo_after_5ms_def

text \<open>
  C10. Whenever \<open>handleQueuedJob\<close> or \<open>handleRoute\<close> returns or throws, no timer is
  pending and the signal is not left unaborted. \<open>handleQueuedJob\<close> creates the controller
  and the timer only once it has found the queue, loaded the module and a positive
  timeout: from there on, and for \<open>handleRoute\<close> always, the signal handed to the handler
  is aborted at the end. (A call that never returns, because \<open>onError\<close> or
  \<open>onMessageSent\<close> never settles, has no end to speak of.)
\<close>

theorem timer_cleared_and_signal_aborted:
  "(timer st = None \<and> signal st = None \<and>
    fst (handleQueuedJob toStr queues loaded queueName jobID R st) \<noteq> Hangs \<longrightarrow>
      timer (snd (handleQueuedJob toStr queues loaded queueName jobID R st)) = None \<and>
      signal (snd (handleQueuedJob toStr queues loaded queueName jobID R st)) \<noteq> Some False) \<and>
   (queues queueName = Some T \<and> loaded = Some (h, mw) \<and> 0 < min (T * 1000) R \<and>
    fst (handleQueuedJob toStr queues loaded queueName jobID R st) \<noteq> Hangs \<longrightarrow>
      timer (snd (handleQueuedJob toStr queues loaded queueName jobID R st)) = None \<and>
      signal (snd (handleQueuedJob toStr queues loaded queueName jobID R st)) = Some True) \<and>
   (fst (handleRoute parse stringify toStr ct data fn rh wmw timeout st') \<noteq> Hangs \<longrightarrow>
      timer (snd (handleRoute parse stringify toStr ct data fn rh wmw timeout st')) = None \<and>
      signal (snd (handleRoute parse stringify toStr ct data fn rh wmw timeout st')) = Some True)"
proof -
  have general: "timer st = None \<Longrightarrow> signal st = None \<Longrightarrow>
      fst (handleQueuedJob toStr queues loaded queueName jobID R st) \<noteq> Hangs \<Longrightarrow>
      timer (snd (handleQueuedJob toStr queues loaded queueName jobID R st)) = None \<and>
      signal (snd (handleQueuedJob toStr queues loaded queueName jobID R st)) \<noteq> Some False"
  proof -
    assume fresh: "timer st = None" "signal st = None"
      and returns: "fst (handleQueuedJob toStr queues loaded queueName jobID R st) \<noteq> Hangs"
    show ?thesis
    proof (cases "queues queueName = None \<or> loaded = None \<or>
        (\<exists>T. queues queueName = Some T \<and> min (T * 1000) R \<le> 0)")
      case True
      then show ?thesis
        using handleQueuedJob_not_armed [of queues queueName loaded R toStr jobID st] fresh by simp
    next
      case False
      then obtain T' h' mw' where "queues queueName = Some T'" "loaded = Some (h', mw')" "0 < min (T' * 1000) R"
        by (cases "queues queueName"; cases loaded) (auto simp del: min_less_iff_conj)
      then show ?thesis
        using handleQueuedJob_armed [where queues = queues and queueName = queueName and loaded = loaded
            and R = R and toStr = toStr and jobID = jobID and st = st] returns
        by simp
    qed
  qed
  have armed: "queues queueName = Some T \<Longrightarrow> loaded = Some (h, mw) \<Longrightarrow> 0 < min (T * 1000) R \<Longrightarrow>
      fst (handleQueuedJob toStr queues loaded queueName jobID R st) \<noteq> Hangs \<Longrightarrow>
      timer (snd (handleQueuedJob toStr queues loaded queueName jobID R st)) = None \<and>
      signal (snd (handleQueuedJob toStr queues loaded queueName jobID R st)) = Some True"
    by (rule handleQueuedJob_armed [where queues = queues and queueName = queueName])
  have route: "fst (handleRoute parse stringify toStr ct data fn rh wmw timeout st') \<noteq> Hangs \<Longrightarrow>
      timer (snd (handleRoute parse stringify toStr ct data fn rh wmw timeout st')) = None \<and>
      signal (snd (handleRoute parse stringify toStr ct data fn rh wmw timeout st')) = Some True"
    by (rule handleRoute_finally)
  show ?thesis
  proof (intro conjI impI)
    assume a: "timer st = None \<and> signal st = None \<and>
      fst (handleQueuedJob toStr queues loaded queueName jobID R st) \<noteq> Hangs"
    have "timer (snd (handleQueuedJob toStr queues loaded queueName jobID R st)) = None \<and>
      signal (snd (handleQueuedJob toStr queues loaded queueName jobID R st)) \<noteq> Some False"
      by (rule general [OF a [THEN conjunct1] a [THEN conjunct2, THEN conjunct1]
            a [THEN conjunct2, THEN conjunct2]])
    then show "timer (snd (handleQueuedJob toStr queues loaded queueName jobID R st)) = None"
      and "signal (snd (handleQueuedJob toStr queues loaded queueName jobID R st)) \<noteq> Some False"
      by simp_all
  next
    assume a: "queues queueName = Some T \<and> loaded = Some (h, mw) \<and> 0 < min (T * 1000) R \<and>
      fst (handleQueuedJob toStr queues loaded queueName jobID R st) \<noteq> Hangs"
    have "timer (snd (handleQueuedJob toStr queues loaded queueName jobID R st)) = None \<and>
      signal (snd (handleQueuedJob toStr queues loaded queueName jobID R st)) = Some True"
      by (rule armed [OF a [THEN conjunct1] a [THEN conjunct2, THEN conjunct1]
            a [THEN conjunct2, THEN conjunct2, THEN conjunct1]
            a [THEN conjunct2, THEN conjunct2, THEN conjunct2]])
    then show "timer (snd (handleQueuedJob toStr queues loaded queueName jobID R st)) = None"
      and "signal (snd (handleQueuedJob toStr queues loaded queueName jobID R st)) = Some True"
      by simp_all
  next
    assume "fst (handleRoute parse stringify toStr ct data fn rh wmw timeout st') \<noteq> Hangs"
    then show "timer (snd (handleRoute parse stringify toStr ct data fn rh wmw timeout st')) = None"
      and "signal (snd (handleRoute parse stringify toStr ct data fn rh wmw timeout st')) = Some True"
      using route by simp_all
  qed
qed

theorem timer_cleared_and_signal_aborted_witness:
  "timer (snd (handleQueuedJob example_String [''screenshots'' \<mapsto> 30]
        (Some (Resolves 10 (), no_queue_middleware)) ''screenshots'' (StrV ''job-1'') 30000 initial_state)) = None \<and>
   signal (snd (handleQueuedJob example_String [''screenshots'' \<mapsto> 30]
        (Some (Resolves 10 (), no_queue_middleware)) ''screenshots'' (StrV ''job-1'') 30000 initial_state)) = Some True \<and>
   timer (snd (handleQueuedJob example_String [''screenshots'' \<mapsto> 30]
        (Some (Rejects 10 rejected, no_queue_middleware)) ''screenshots'' (StrV ''job-1'') 30000 initial_state)) = None \<and>
   signal (snd (handleQueuedJob example_String [''screenshots'' \<mapsto> 30]
        (Some (Rejects 10 rejected, no_queue_middleware)) ''screenshots'' (StrV ''job-1'') 30000 initial_state)) = Some True \<and>
   timer (snd (handleQueuedJob example_String [''screenshots'' \<mapsto> 30]
        (Some (Pending, no_queue_middleware)) ''screenshots'' (StrV ''job-1'') 30000 initial_state)) = None \<and>
   signal (snd (handleQueuedJob example_String [''screenshots'' \<mapsto> 30]
        (Some (Pending, no_queue_middleware)) ''screenshots'' (StrV ''job-1'') 30000 initial_state)) = Some True \<and>
   timer (snd (handleRoute example_parse example_stringify example_String (Some ''text'') ''ping''
        ''socket/index.js'' echo_after_5ms no_websocket_middleware 10 initial_state)) = None \<and>
   signal (snd (handleRoute example_parse example_stringify example_String (Some ''text'') ''ping''
        ''socket/index.js'' echo_after_5ms no_websocket_middleware 10 initial_state)) = Some True"
proof -
  have q: "[''screenshots'' \<mapsto> 30 :: int] ''screenshots'' = Some 30"
    by simp
  have budget: "0 < min (30 * 1000) (30000 :: int)"
    by simp
  have returns:
    "fst (handleQueuedJob example_String [''screenshots'' \<mapsto> 30]
        (Some (Resolves 10 (), no_queue_middleware)) ''screenshots'' (StrV ''job-1'') 30000 initial_state) \<noteq> Hangs"
    "fst (handleQueuedJob example_String [''screenshots'' \<mapsto> 30]
        (Some (Rejects 10 rejected, no_queue_middleware)) ''screenshots'' (StrV ''job-1'') 30000 initial_state) \<noteq> Hangs"
    "fst (handleQueuedJob example_String [''screenshots'' \<mapsto> 30]
        (Some (Pending, no_queue_middleware)) ''screenshots'' (StrV ''job-1'') 30000 initial_state) \<noteq> Hangs"
    "fst (handleRoute example_parse example_stringify example_String (Some ''text'') ''ping''
        ''socket/index.js'' echo_after_5ms no_websocket_middleware 10 initial_state) \<noteq> Hangs"
    by (simp_all add: queue_run_defs ws_run_defs)
  show ?thesis
    using q budget returns
      timer_cleared_and_signal_aborted [where queues = "[''screenshots'' \<mapsto> 30]" and queueName = "''screenshots''"
        and T = 30 and R = 30000 and loaded = "Some (Resolves 10 (), no_queue_middleware)"
        and h = "Resolves 10 ()" and mw = no_queue_middleware
        and toStr = example_String and jobID = "StrV ''job-1''" and st = initial_state
        and parse = example_parse and stringify = example_stringify and ct = "Some ''text''" and data = "''ping''"
        and fn = "''socket/index.js''" and rh = echo_after_5ms and wmw = no_websocket_middleware
        and timeout = 10 and st' = initial_state]
      timer_cleared_and_signal_aborted [where queues = "[''screenshots'' \<mapsto> 30]" and queueName = "''screenshots''"
        and T = 30 and R = 30000 and loaded = "Some (Rejects 10 rejected, no_queue_middleware)"
        and h = "Rejects 10 rejected" and mw = no_queue_middleware
        and toStr = example_String and jobID = "StrV ''job-1''" and st = initial_state
        and parse = example_parse and stringify = example_stringify and ct = "Some ''text''" and data = "''ping''"
        and fn = "''socket/index.js''" and rh = echo_after_5ms and wmw = no_websocket_middleware
        and timeout = 10 and st' = initial_state]
      timer_cleared_and_signal_aborted [where queues = "[''screenshots'' \<mapsto> 30]" and queueName = "''screenshots''"
        and T = 30 and R = 30000 and loaded = "Some (Pending, no_queue_middleware)"
        and h = Pending and mw = no_queue_middleware
        and toStr = example_String and jobID = "StrV ''job-1''" and st = initial_state
        and parse = example_parse and stringify = example_stringify and ct = "Some ''text''" and data = "''ping''"
        and fn = "''socket/index.js''" and rh = echo_after_5ms and wmw = no_websocket_middleware
        and timeout = 10 and st' = initial_state]
    by simp
qed

subsection \<open>Authenticating a WebSocket\<close>

lemmas auth_defs =
  authenticateWebSocket_def authenticate_catch_def getCookies_def call_def console_def initial_state_def
  no_websocket_middleware_def forbidden_def internal_server_error_def concern_def new_Response_def
  new_Headers_Nil advance_def forever_def Let_def
  returns_undefined_def returns_user_def returns_nobody_def throws_401_def never_settles_def

lemma authenticate_catch_fst:
  "fst (authenticate_catch toStr mw error st) =
     (case onError_ws mw of
        None \<Rightarrow> Thrown internal_server_error
      | Some f \<Rightarrow> if f (asError toStr error) = Pending then Hangs else Thrown internal_server_error)"
proof (cases "onError_ws mw")
  case None
  then show ?thesis by (simp add: authenticate_catch_def)
next
  case (Some f)
  then show ?thesis
    by (cases "f (asError toStr error)") (simp_all add: authenticate_catch_def call_def)
qed

lemma authenticate_catch_calls_onError:
  assumes "onError_ws mw = Some f"
  shows "(now st, Called ''onError'' [asError toStr error])
           \<in> set (trace (snd (authenticate_catch toStr mw error st)))"
  using assms
  by (cases "f (asError toStr error)")
     (simp_all add: authenticate_catch_def call_def console_def advance_def forever_def abort_def
        clearTimeout_def Let_def split: option.splits)

text \<open>
  C4, as stated, takes \<open>undefined\<close> from \<open>authenticate\<close> for an anonymous user and makes
  a throwing \<open>authenticate\<close> an authorization denial (401 or 403). The source logs a
  concern and throws 403 Forbidden for \<open>undefined\<close>, and throws 500 Internal Server Error
  when \<open>authenticate\<close> throws, whatever it threw (here a 401 response).
\<close>

theorem authenticateWebSocket_undefined_and_throw_counterexample:
  "authenticateWebSocket example_String
     (no_websocket_middleware\<lparr>authenticate := Some returns_undefined\<rparr>) None initial_state =
     (Thrown (ResponseV \<lparr>status = 403, headers = [(''content-type'', ''text/plain;charset=UTF-8'')],
                          body = Some ''Forbidden''\<rparr>),
      \<lparr>now = 0, timer = None, signal = None,
         trace = [(0, Called ''authenticate'' []),
                  (0, Console (ConsoleError
                         ''Authenticate function returned undefined, was this intentional?'' []))]\<rparr>) \<and>
   fst (authenticateWebSocket example_String
          (no_websocket_middleware\<lparr>authenticate := Some throws_401\<rparr>) None initial_state) =
     Thrown (ResponseV \<lparr>status = 500, headers = [(''content-type'', ''text/plain;charset=UTF-8'')],
                         body = Some ''Internal Server Error''\<rparr>)"
  by (simp add: auth_defs)

text \<open>
  C4, amended. Without an \<open>authenticate\<close> hook the user is anonymous (\<open>null\<close>) and nothing
  is called. When the hook returns \<open>null\<close>, or a value whose \<open>id\<close> is truthy, that value
  is returned. When it returns anything else (\<open>undefined\<close>, or a user without a truthy
  \<open>id\<close>), the concern is written to the error console and a 403 Forbidden response is
  thrown. When it throws, or when \<open>getCookies\<close> throws (and \<open>authenticate\<close> is then not
  called), the \<^verbatim>\<open>catch\<close> block runs: \<open>onError\<close> (if defined) is called with the error
  made an \<open>Error\<close>, and a 500 Internal Server Error response is thrown (the call never
  returns if \<open>onError\<close> never settles). Where a response is thrown no user is returned.
\<close>

theorem authenticateWebSocket_outcome:
  "(authenticate mw = None \<longrightarrow> authenticateWebSocket toStr mw header st = (Returned Null, st)) \<and>
   (authenticate mw = Some a \<and> getCookies header = Inr cookies \<and> a cookies = Resolves d user \<longrightarrow>
      authenticateWebSocket toStr mw header st =
        (if user = Null \<or> truthy (optional_id user)
         then (Returned user, advance d (st\<lparr>trace := trace st @ [(now st, Called ''authenticate'' [])]\<rparr>))
         else (Thrown forbidden,
               console (ConsoleError (concern user) [])
                 (advance d (st\<lparr>trace := trace st @ [(now st, Called ''authenticate'' [])]\<rparr>))))) \<and>
   (authenticate mw = Some a \<and> getCookies header = Inr cookies \<and> a cookies = Rejects d error \<longrightarrow>
      authenticateWebSocket toStr mw header st =
        authenticate_catch toStr mw error
          (advance d (st\<lparr>trace := trace st @ [(now st, Called ''authenticate'' [])]\<rparr>))) \<and>
   (authenticate mw = Some a \<and> getCookies header = Inl error \<longrightarrow>
      authenticateWebSocket toStr mw header st = authenticate_catch toStr mw error st) \<and>
   (authenticate mw = Some a \<and> getCookies header = Inr cookies \<and> a cookies = Pending \<longrightarrow>
      fst (authenticateWebSocket toStr mw header st) = Hangs) \<and>
   fst (authenticate_catch toStr mw error st') =
     (case onError_ws mw of
        None \<Rightarrow> Thrown internal_server_error
      | Some f \<Rightarrow> if f (asError toStr error) = Pending then Hangs else Thrown internal_server_error) \<and>
   (onError_ws mw = None \<longrightarrow> authenticate_catch toStr mw error st' = (Thrown internal_server_error, st')) \<and>
   (onError_ws mw = Some g \<longrightarrow>
      (now st', Called ''onError'' [asError toStr error])
        \<in> set (trace (snd (authenticate_catch toStr mw error st')))) \<and>
   concern Undefined = ''Authenticate function returned undefined, was this intentional?'' \<and>
   (user' \<noteq> Undefined \<longrightarrow> concern user' = ''Authenticate function returned user object without an ID'') \<and>
   forbidden = ResponseV \<lparr>status = 403, headers = [(''content-type'', ''text/plain;charset=UTF-8'')],
                           body = Some ''Forbidden''\<rparr> \<and>
   internal_server_error =
     ResponseV \<lparr>status = 500, headers = [(''content-type'', ''text/plain;charset=UTF-8'')],
                 body = Some ''Internal Server Error''\<rparr>"
proof (intro conjI impI)
  show "fst (authenticate_catch toStr mw error st') =
     (case onError_ws mw of
        None \<Rightarrow> Thrown internal_server_error
      | Some f \<Rightarrow> if f (asError toStr error) = Pending then Hangs else Thrown internal_server_error)"
    by (rule authenticate_catch_fst)
next
  assume "onError_ws mw = Some g"
  then show "(now st', Called ''onError'' [asError toStr error])
        \<in> set (trace (snd (authenticate_catch toStr mw error st')))"
    by (rule authenticate_catch_calls_onError)
qed (auto simp add: authenticateWebSocket_def authenticate_catch_def call_def concern_def forbidden_def
      internal_server_error_def new_Response_def new_Headers_Nil)

theorem authenticateWebSocket_outcome_witness:
  "authenticateWebSocket example_String no_websocket_middleware None initial_state =
     (Returned Null, initial_state) \<and>
   authenticateWebSocket example_String
     (no_websocket_middleware\<lparr>authenticate := Some returns_user\<rparr>) (Some ''session=abc; theme=dark'')
     initial_state =
     (Returned (ObjV [(''id'', StrV ''user-1'')]),
      \<lparr>now = 2, timer = None, signal = None, trace = [(0, Called ''authenticate'' [])]\<rparr>) \<and>
   authenticateWebSocket example_String
     (no_websocket_middleware\<lparr>authenticate := Some returns_nobody\<rparr>) None initial_state =
     (Thrown forbidden,
      \<lparr>now = 2, timer = None, signal = None,
         trace = [(0, Called ''authenticate'' []),
                  (2, Console (ConsoleError ''Authenticate function returned user object without an ID'' []))]\<rparr>) \<and>
   authenticateWebSocket example_String
     (no_websocket_middleware\<lparr>authenticate := Some throws_401\<rparr>) None initial_state =
     (Thrown internal_server_error,
      \<lparr>now = 0, timer = None, signal = None, trace = [(0, Called ''authenticate'' [])]\<rparr>) \<and>
   authenticateWebSocket example_String
     (no_websocket_middleware\<lparr>authenticate := Some returns_user\<rparr>) (Some ''session'') initial_state =
     (Thrown internal_server_error, initial_state) \<and>
   fst (authenticateWebSocket example_String
          (no_websocket_middleware\<lparr>authenticate := Some never_settles\<rparr>) None initial_state) = Hangs"
proof -
  have cookies: "getCookies None = Inr []"
    "getCookies (Some ''session=abc; theme=dark'') = Inr [(''session'', ''abc''), (''theme'', ''dark'')]"
    "getCookies (Some ''session'') =
       Inl (ErrorV ''TypeError'' ''undefined is not iterable (cannot read property Symbol(Symbol.iterator))'')"
    by (simp_all add: getCookies_def match_cookie_def trim_def is_white_space_def is_line_terminator_def)
  show ?thesis
    using cookies
      authenticateWebSocket_outcome [where mw = no_websocket_middleware and toStr = example_String
        and header = None and st = initial_state]
      authenticateWebSocket_outcome [where mw = "no_websocket_middleware\<lparr>authenticate := Some returns_user\<rparr>"
        and toStr = example_String and header = "Some ''session=abc; theme=dark''" and st = initial_state
        and a = returns_user and cookies = "[(''session'', ''abc''), (''theme'', ''dark'')]"
        and d = 2 and user = "ObjV [(''id'', StrV ''user-1'')]"]
      authenticateWebSocket_outcome [where mw = "no_websocket_middleware\<lparr>authenticate := Some returns_nobody\<rparr>"
        and toStr = example_String and header = None and st = initial_state
        and a = returns_nobody and cookies = "[]"
        and d = 2 and user = "ObjV [(''name'', StrV ''nobody'')]"]
      authenticateWebSocket_outcome [where mw = "no_websocket_middleware\<lparr>authenticate := Some throws_401\<rparr>"
        and toStr = example_String and header = None and st = initial_state
        and a = throws_401 and cookies = "[]" and d = 0
        and error = "ResponseV \<lparr>status = 401, headers = [], body = Some ''Missing token''\<rparr>"
        and st' = "advance 0 (initial_state\<lparr>trace := trace initial_state @ [(now initial_state, Called ''authenticate'' [])]\<rparr>)"]
      authenticateWebSocket_outcome [where mw = "no_websocket_middleware\<lparr>authenticate := Some returns_user\<rparr>"
        and toStr = example_String and header = "Some ''session''" and st = initial_state
        and a = returns_user
        and error = "ErrorV ''TypeError'' ''undefined is not iterable (cannot read property Symbol(Symbol.iterator))''"
        and st' = initial_state]
      authenticateWebSocket_outcome [where mw = "no_websocket_middleware\<lparr>authenticate := Some never_settles\<rparr>"
        and toStr = example_String and header = None and st = initial_state
        and a = never_settles and cookies = "[]"]
    by (simp add: no_websocket_middleware_def get_prop_def returns_user_def returns_nobody_def
        throws_401_def never_settles_def concern_def advance_def initial_state_def console_def)
qed

subsection \<open>Lifecycle hooks\<close>



lemma not_resolved_then: "\<forall>d u. b \<noteq> Resolves d u \<Longrightarrow> then_settle a b \<noteq> Resolves d' u'"
  by (cases a; cases b) auto

lemma completed_resolved: "job_end k s = Completed \<Longrightarrow> \<exists>d u. s = Resolves d u"
  by (cases s) (auto simp add: job_end_def split: if_splits)

lemma hook_rejects_not_completed:
  assumes "onJobStarted mw = Some (Rejects d e) \<or> onJobFinished mw = Some (Rejects d e)"
  shows "job_end k (job_settle mw h) \<noteq> Completed"
proof
  assume "job_end k (job_settle mw h) = Completed"
  then obtain d' u' where r: "job_settle mw h = Resolves d' u'"
    using completed_resolved by blast
  from assms show False
  proof
    assume "onJobStarted mw = Some (Rejects d e)"
    then show False using r by (simp add: job_settle_def hook_settle_def)
  next
    assume f: "onJobFinished mw = Some (Rejects d e)"
    have "\<forall>d2 u2. then_settle h (hook_settle (onJobFinished mw)) \<noteq> Resolves d2 u2"
      using f by (cases h) (simp_all add: hook_settle_def)
    then have "job_settle mw h \<noteq> Resolves d' u'"
      unfolding job_settle_def by (rule not_resolved_then)
    then show False using r by simp
  qed
qed

lemma hook_rejects_not_True:
  assumes "queues queueName = Some T"
    and "onJobStarted mw = Some (Rejects d e) \<or> onJobFinished mw = Some (Rejects d e)"
  shows "fst (handleQueuedJob toStr queues (Some (h, mw)) queueName jobID R st) \<noteq> Returned True"
proof -
  have nc: "job_end (timer_delay (min (T * 1000) R * 1000)) (job_settle mw h) \<noteq> Completed"
    by (rule hook_rejects_not_completed [OF assms(2)])
  show ?thesis
    unfolding handleQueuedJob_result [where queues = queues and queueName = queueName, OF assms(1) refl]
    using nc
    by (cases "job_end (timer_delay (min (T * 1000) R * 1000)) (job_settle mw h)")
       (simp_all add: after_onError_not_True)
qed

lemma onJobStarted_rejects_handler_unused:
  assumes "onJobStarted mw = Some (Rejects d e)"
  shows "handleQueuedJob toStr queues (Some (h, mw)) queueName jobID R st =
         handleQueuedJob toStr queues (Some (h', mw)) queueName jobID R st"
proof -
  have "runWithMiddleware_queue mw h = runWithMiddleware_queue mw h'"
    using assms by (intro ext) (simp add: runWithMiddleware_queue_def call_hook_def call_def)
  then show ?thesis
    by (cases "queues queueName") (simp_all add: handleQueuedJob_def Let_def cong: if_cong)
qed

lemma onMessageReceived_rejects_handler_unused:
  assumes "onMessageReceived wmw = Some (Rejects d e)"
  shows "handleRoute parse stringify toStr ct data fn rh wmw timeout st =
         handleRoute parse stringify toStr ct data fn rh' wmw timeout st"
proof -
  have thunk: "(\<lambda>s. case call_hook ''onMessageReceived'' (onMessageReceived wmw) s of
                   (Returned u, s1) \<Rightarrow> call ''handler'' [rd] (rh rd) s1
                 | (Thrown error, s1) \<Rightarrow> (Thrown error, s1)
                 | (Hangs, s1) \<Rightarrow> (Hangs, s1)) =
               (\<lambda>s. case call_hook ''onMessageReceived'' (onMessageReceived wmw) s of
                   (Returned u, s1) \<Rightarrow> call ''handler'' [rd] (rh' rd) s1
                 | (Thrown error, s1) \<Rightarrow> (Thrown error, s1)
                 | (Hangs, s1) \<Rightarrow> (Hangs, s1))" for rd
    using assms by (intro ext) (simp add: call_hook_def call_def)
  have "runWithMiddleware_ws parse stringify toStr ct data fn rh wmw s =
        runWithMiddleware_ws parse stringify toStr ct data fn rh' wmw s" for s
    by (cases "bufferToData parse ct data") (simp_all add: runWithMiddleware_ws_def thunk)
  then show ?thesis
    by (simp add: handleRoute_def)
qed

lemma onMessageReceived_rejects_reply:
  assumes "onMessageReceived wmw = Some (Rejects d e)" and "int d < timeout * 1000" and "timeout * 1000 \<le> 2147483647"
    and "bufferToData parse ct data = Inr rd"
  shows "fst (handleRoute parse stringify toStr ct data fn rh wmw timeout st) = error_outcome stringify toStr wmw e"
proof -
  let ?st1 = "setTimeout (timeout * 1000) (new_AbortController st)"
  have race: "raceAbort Undefined
           (\<lambda>s. case call_hook ''onMessageReceived'' (onMessageReceived wmw) s of
                   (Returned u, s1) \<Rightarrow> call ''handler'' [rd] (rh rd) s1
                 | (Thrown error, s1) \<Rightarrow> (Thrown error, s1)
                 | (Hangs, s1) \<Rightarrow> (Hangs, s1)) ?st1 =
        (Thrown e, advance d (?st1\<lparr>trace := trace ?st1 @ [(now ?st1, Called ''onMessageReceived'' [])]\<rparr>))"
    using assms(1-3)
    by (auto simp add: raceAbort_def call_hook_def call_def advance_def setTimeout_def new_AbortController_def
        abort_def clearTimeout_def Let_def)
  show ?thesis
    unfolding handleRoute_fst
    using runWithMiddleware_ws_fst [where stringify = stringify and toStr = toStr and fn = fn
        and rh = rh and rd = rd and mw = wmw, OF assms(4) race]
    by simp
qed

text \<open>
  C6, as stated, lets no failing lifecycle hook change the outcome of the invocation.
  A job whose handler resolves after 10 ms completes (true) when \<open>onJobStarted\<close>
  resolves and is not completed (false) when \<open>onJobStarted\<close> throws; a message that the
  handler echoes is answered with an error message when \<open>onMessageReceived\<close> throws.
\<close>

theorem lifecycle_hook_failure_counterexample:
  "fst (handleQueuedJob example_String [''screenshots'' \<mapsto> 30]
          (Some (Resolves 10 (), no_queue_middleware\<lparr>onJobStarted := Some (Rejects 0 rejected)\<rparr>))
          ''screenshots'' (StrV ''job-1'') 30000 initial_state) = Returned False \<and>
   fst (handleQueuedJob example_String [''screenshots'' \<mapsto> 30]
          (Some (Resolves 10 (), no_queue_middleware\<lparr>onJobStarted := Some (Resolves 0 ())\<rparr>))
          ''screenshots'' (StrV ''job-1'') 30000 initial_state) = Returned True \<and>
   fst (handleRoute example_parse example_stringify example_String (Some ''text'') ''ping''
          ''socket/index.js'' echo_after_5ms
          (no_websocket_middleware\<lparr>onMessageReceived := Some (Rejects 1 rejected)\<rparr>) 10 initial_state) =
     Returned (Some rejected_json) \<and>
   fst (handleRoute example_parse example_stringify example_String (Some ''text'') ''ping''
          ''socket/index.js'' echo_after_5ms
          (no_websocket_middleware\<lparr>onMessageReceived := Some (Resolves 1 ())\<rparr>) 10 initial_state) =
     Returned (Some ''ping'')"
  by (simp add: queue_run_defs ws_run_defs rejected_def example_String_def example_stringify_def asError_def)

text \<open>
  C6, amended. Only \<open>onMessageSent\<close> is isolated: when it throws, the failure is logged
  and the reply of the invocation is the one it would be had the hook resolved. The
  other hooks run inside the \<^verbatim>\<open>try\<close> block of the handler and fail the invocation:
  when \<open>onMessageReceived\<close> throws, the handler is not called (the result does not
  depend on it) and, if that happens before the timeout, the reply is the error reply of
  the \<^verbatim>\<open>catch\<close> block; when \<open>onJobStarted\<close> or \<open>onJobFinished\<close> throws, the job is not
  completed, and a throwing \<open>onJobStarted\<close> keeps the handler from being called.
\<close>

theorem lifecycle_hook_failures:
  "fst (handleRoute parse stringify toStr ct data fn rh (wmw\<lparr>onMessageSent := Some (Rejects d e)\<rparr>) timeout st) =
   fst (handleRoute parse stringify toStr ct data fn rh (wmw\<lparr>onMessageSent := Some (Resolves d ())\<rparr>) timeout st) \<and>
   (resultToBuffer stringify response = Inr bytes \<longrightarrow>
      handleResponse stringify (wmw\<lparr>onMessageSent := Some (Rejects d e)\<rparr>) response st =
        (Returned (Some bytes),
         console (ConsoleError ''Internal processing error in onMessageSent'' [e])
           (advance d (st\<lparr>trace := trace st @ [(now st, Called ''onMessageSent'' [BufferV bytes])]\<rparr>)))) \<and>
   (onMessageReceived wmw = Some (Rejects d e) \<longrightarrow>
      handleRoute parse stringify toStr ct data fn rh wmw timeout st =
      handleRoute parse stringify toStr ct data fn rh' wmw timeout st) \<and>
   (onMessageReceived wmw = Some (Rejects d e) \<and> int d < timeout * 1000 \<and> timeout * 1000 \<le> 2147483647 \<and>
    bufferToData parse ct data = Inr rd \<longrightarrow>
      fst (handleRoute parse stringify toStr ct data fn rh wmw timeout st) =
        error_outcome stringify toStr wmw e) \<and>
   (queues queueName = Some T \<and>
    (onJobStarted mw = Some (Rejects d e) \<or> onJobFinished mw = Some (Rejects d e)) \<longrightarrow>
      fst (handleQueuedJob toStr queues (Some (h, mw)) queueName jobID R st') \<noteq> Returned True) \<and>
   (onJobStarted mw = Some (Rejects d e) \<longrightarrow>
      handleQueuedJob toStr queues (Some (h, mw)) queueName jobID R st' =
      handleQueuedJob toStr queues (Some (h', mw)) queueName jobID R st')"
proof (intro conjI impI)
  show "fst (handleRoute parse stringify toStr ct data fn rh (wmw\<lparr>onMessageSent := Some (Rejects d e)\<rparr>) timeout st) =
        fst (handleRoute parse stringify toStr ct data fn rh (wmw\<lparr>onMessageSent := Some (Resolves d ())\<rparr>) timeout st)"
    unfolding handleRoute_fst by (rule onMessageSent_fst)
next
  assume "resultToBuffer stringify response = Inr bytes"
  then show "handleResponse stringify (wmw\<lparr>onMessageSent := Some (Rejects d e)\<rparr>) response st =
        (Returned (Some bytes),
         console (ConsoleError ''Internal processing error in onMessageSent'' [e])
           (advance d (st\<lparr>trace := trace st @ [(now st, Called ''onMessageSent'' [BufferV bytes])]\<rparr>)))"
    by (simp add: handleResponse_def call_def)
next
  assume "onMessageReceived wmw = Some (Rejects d e)"
  then show "handleRoute parse stringify toStr ct data fn rh wmw timeout st =
             handleRoute parse stringify toStr ct data fn rh' wmw timeout st"
    by (rule onMessageReceived_rejects_handler_unused)
next
  assume a: "onMessageReceived wmw = Some (Rejects d e) \<and> int d < timeout * 1000 \<and>
             timeout * 1000 \<le> 2147483647 \<and> bufferToData parse ct data = Inr rd"
  show "fst (handleRoute parse stringify toStr ct data fn rh wmw timeout st) = error_outcome stringify toStr wmw e"
    by (rule onMessageReceived_rejects_reply [OF a [THEN conjunct1] a [THEN conjunct2, THEN conjunct1]
          a [THEN conjunct2, THEN conjunct2, THEN conjunct1] a [THEN conjunct2, THEN conjunct2, THEN conjunct2]])
next
  assume a: "queues queueName = Some T \<and>
             (onJobStarted mw = Some (Rejects d e) \<or> onJobFinished mw = Some (Rejects d e))"
  show "fst (handleQueuedJob toStr queues (Some (h, mw)) queueName jobID R st') \<noteq> Returned True"
    by (rule hook_rejects_not_True [where queues = queues and queueName = queueName,
          OF a [THEN conjunct1] a [THEN conjunct2]])
next
  assume "onJobStarted mw = Some (Rejects d e)"
  then show "handleQueuedJob toStr queues (Some (h, mw)) queueName jobID R st' =
             handleQueuedJob toStr queues (Some (h', mw)) queueName jobID R st'"
    by (rule onJobStarted_rejects_handler_unused)
qed

theorem lifecycle_hook_failures_witness:
  "fst (handleRoute example_parse example_stringify example_String (Some ''text'') ''ping''
          ''socket/index.js'' echo_after_5ms
          (no_websocket_middleware\<lparr>onMessageSent := Some (Rejects 1 rejected)\<rparr>) 10 initial_state) =
     Returned (Some ''ping'') \<and>
   fst (handleRoute example_parse example_stringify example_String (Some ''text'') ''ping''
          ''socket/index.js'' echo_after_5ms
          (no_websocket_middleware\<lparr>onMessageReceived := Some (Rejects 1 rejected)\<rparr>) 10 initial_state) =
     Returned (Some rejected_json) \<and>
   fst (handleQueuedJob example_String [''screenshots'' \<mapsto> 30]
          (Some (Resolves 10 (), no_queue_middleware\<lparr>onJobFinished := Some (Rejects 1 rejected)\<rparr>))
          ''screenshots'' (StrV ''job-1'') 30000 initial_state) \<noteq> Returned True"
proof -
  have q: "[''screenshots'' \<mapsto> 30 :: int] ''screenshots'' = Some 30"
    by simp
  have sent: "fst (handleRoute example_parse example_stringify example_String (Some ''text'') ''ping''
          ''socket/index.js'' echo_after_5ms
          (no_websocket_middleware\<lparr>onMessageSent := Some (Resolves 1 ())\<rparr>) 10 initial_state) =
     Returned (Some ''ping'')"
    by (simp add: ws_run_defs)
  have as_text: "bufferToData example_parse (Some ''text'') ''ping'' = Inr (StrV ''ping'')"
    by (simp add: bufferToData_def)
  have reply: "error_outcome example_stringify example_String
        (no_websocket_middleware\<lparr>onMessageReceived := Some (Rejects 1 rejected)\<rparr>) rejected =
      Returned (Some rejected_json)"
    by (simp add: error_outcome_def response_outcome_def sent_outcome_def resultToBuffer_def
        no_websocket_middleware_def rejected_def example_String_def example_stringify_def)
  show ?thesis
    using q sent as_text reply
      lifecycle_hook_failures [where parse = example_parse and stringify = example_stringify
        and toStr = example_String and ct = "Some ''text''" and data = "''ping''" and fn = "''socket/index.js''"
        and rh = echo_after_5ms and wmw = no_websocket_middleware and d = 1 and e = rejected and timeout = 10
        and st = initial_state]
      lifecycle_hook_failures [where parse = example_parse and stringify = example_stringify
        and toStr = example_String and ct = "Some ''text''" and data = "''ping''" and fn = "''socket/index.js''"
        and rh = echo_after_5ms
        and wmw = "no_websocket_middleware\<lparr>onMessageReceived := Some (Rejects 1 rejected)\<rparr>"
        and d = 1 and e = rejected and timeout = 10 and st = initial_state and rd = "StrV ''ping''"
        and queues = "[''screenshots'' \<mapsto> 30]" and queueName = "''screenshots''" and T = 30
        and mw = "no_queue_middleware\<lparr>onJobFinished := Some (Rejects 1 rejected)\<rparr>"
        and h = "Resolves 10 ()" and jobID = "StrV ''job-1''" and R = 30000 and st' = initial_state]
    by (simp add: no_websocket_middleware_def no_queue_middleware_def)
qed

end
